theory Spec2Isabelle
  imports Complex_Main "HOL-Library.Word"
begin

section \<open>Feature visualisation: the notebook's \<open>FeatureVisualizer\<close> class\<close>

text \<open>
  The source is the class \<open>FeatureVisualizer\<close> of \<open>10_feature_visualization.ipynb\<close>
  with its two methods \<open>create_feature_maximizer\<close> and \<open>get_mean_layer_activations\<close>.
  The entries of tensors (float32 and float64) are modelled by \<open>real\<close>: exact arithmetic
  on them, no rounding, no \<open>nan\<close> or \<open>inf\<close>. The one float computation whose result is
  truncated to an integer, the side \<open>int(upscaling_factor**j * imsize)\<close>, is not done in
  exact arithmetic: its power and product are the platform's, parameters of the model.
  Python integers are \<open>int\<close>. Every exception of the source is a value \<open>Inl e\<close> of the
  result type.
\<close>

datatype error =
  NameError | IndexError | ValueError | AxisError | RuntimeError | OSError | OverflowError
  | ZeroDivisionError

subsection \<open>Arrays: numpy's \<open>ndarray\<close> and torch's \<open>Tensor\<close>\<close>

text \<open>
  An array is its shape and its entries, read at a multi-index (one number per axis).
  Entries at multi-indices outside the shape are never read by the operations below.
\<close>

record ndarray =
  shape :: "nat list"
  data :: "nat list \<Rightarrow> real"

text \<open>All multi-indices of a shape, in row-major order.\<close>

fun indices :: "nat list \<Rightarrow> nat list list" where
  "indices [] = [[]]"
| "indices (n # ns) = concat (map (\<lambda>i. map ((#) i) (indices ns)) [0..<n])"

text \<open>
  \<open>t.mean()\<close>: the mean of all entries. On an array with no entry numpy and torch give
  \<open>nan\<close>; here the quotient is \<open>0 / 0 = 0\<close>.
\<close>

definition mean_all :: "ndarray \<Rightarrow> real" where
  "mean_all t = sum_list (map (data t) (indices (shape t))) / real (length (indices (shape t)))"

text \<open>Python's index rule for a sequence of length \<open>n\<close>: negative indices count from the end.\<close>

definition py_index :: "nat \<Rightarrow> int \<Rightarrow> error + nat" where
  "py_index n i =
     (if - int n \<le> i \<and> i < int n then Inr (nat (if i < 0 then i + int n else i))
      else Inl IndexError)"

text \<open>\<open>t[i, k]\<close>: two integer indices on the first two axes.\<close>

definition index2 :: "ndarray \<Rightarrow> int \<Rightarrow> int \<Rightarrow> error + ndarray" where
  "index2 t i k =
     (case shape t of
        a # b # rest \<Rightarrow>
          (case py_index a i of
             Inl e \<Rightarrow> Inl e
           | Inr i' \<Rightarrow>
               (case py_index b k of
                  Inl e \<Rightarrow> Inl e
                | Inr k' \<Rightarrow> Inr \<lparr>shape = rest, data = (\<lambda>idx. data t (i' # k' # idx))\<rparr>))
      | _ \<Rightarrow> Inl IndexError)"

text \<open>
  \<open>squeeze()\<close> with no axis drops every axis of length 1, not only the batch axis.
  The remaining indices are read back with a 0 at each dropped axis.
\<close>

fun unsqueeze_index :: "nat list \<Rightarrow> nat list \<Rightarrow> nat list" where
  "unsqueeze_index [] idx = []"
| "unsqueeze_index (n # ns) idx =
     (if n = 1 then 0 # unsqueeze_index ns idx
      else (case idx of [] \<Rightarrow> [] | i # is \<Rightarrow> i # unsqueeze_index ns is))"

definition squeeze :: "ndarray \<Rightarrow> ndarray" where
  "squeeze t = \<lparr>shape = filter (\<lambda>n. n \<noteq> 1) (shape t),
                data = (\<lambda>idx. data t (unsqueeze_index (shape t) idx))\<rparr>"

text \<open>\<open>unsqueeze(0)\<close>: a new leading axis of length 1.\<close>

definition unsqueeze0 :: "ndarray \<Rightarrow> ndarray" where
  "unsqueeze0 t = \<lparr>shape = 1 # shape t, data = (\<lambda>idx. data t (tl idx))\<rparr>"

text \<open>
  \<open>a.transpose(1,2,0)\<close> and \<open>a.transpose(2,0,1)\<close> need exactly three axes (numpy raises
  ValueError otherwise); \<open>np.moveaxis(a,0,2)\<close> needs at least three (AxisError otherwise).
\<close>

definition transpose_1_2_0 :: "ndarray \<Rightarrow> error + ndarray" where
  "transpose_1_2_0 t =
     (case shape t of
        [a, b, c] \<Rightarrow>
          Inr \<lparr>shape = [b, c, a],
               data = (\<lambda>idx. case idx of [i, j, k] \<Rightarrow> data t [k, i, j] | _ \<Rightarrow> 0)\<rparr>
      | _ \<Rightarrow> Inl ValueError)"

definition transpose_2_0_1 :: "ndarray \<Rightarrow> error + ndarray" where
  "transpose_2_0_1 t =
     (case shape t of
        [a, b, c] \<Rightarrow>
          Inr \<lparr>shape = [c, a, b],
               data = (\<lambda>idx. case idx of [i, j, k] \<Rightarrow> data t [j, k, i] | _ \<Rightarrow> 0)\<rparr>
      | _ \<Rightarrow> Inl ValueError)"

definition moveaxis_0_2 :: "ndarray \<Rightarrow> error + ndarray" where
  "moveaxis_0_2 t =
     (case shape t of
        a # b # c # rest \<Rightarrow>
          Inr \<lparr>shape = b # c # a # rest,
               data = (\<lambda>idx. case idx of i # j # k # r \<Rightarrow> data t (k # i # j # r) | _ \<Rightarrow> 0)\<rparr>
      | _ \<Rightarrow> Inl AxisError)"

text \<open>
  Reductions over two axes. \<open>a.mean(axis=(0,1))\<close> and \<open>a.std(axis=(0,1))\<close> (the
  population standard deviation, numpy's default) need two axes, \<open>np.mean(a, axis=(1,2))\<close>
  three; numpy raises AxisError on fewer.
\<close>

definition sum01 :: "nat \<Rightarrow> nat \<Rightarrow> (nat \<Rightarrow> nat \<Rightarrow> real) \<Rightarrow> real" where
  "sum01 h w f = sum_list (map (\<lambda>i. sum_list (map (f i) [0..<w])) [0..<h])"

definition mean_axes_0_1 :: "ndarray \<Rightarrow> error + ndarray" where
  "mean_axes_0_1 t =
     (case shape t of
        h # w # rest \<Rightarrow>
          Inr \<lparr>shape = rest,
               data = (\<lambda>idx. sum01 h w (\<lambda>i j. data t (i # j # idx)) / real (h * w))\<rparr>
      | _ \<Rightarrow> Inl AxisError)"

definition std_axes_0_1 :: "ndarray \<Rightarrow> error + ndarray" where
  "std_axes_0_1 t =
     (case shape t of
        h # w # rest \<Rightarrow>
          Inr \<lparr>shape = rest,
               data = (\<lambda>idx.
                 sqrt (sum01 h w
                   (\<lambda>i j. (data t (i # j # idx)
                            - sum01 h w (\<lambda>i j. data t (i # j # idx)) / real (h * w))\<^sup>2)
                   / real (h * w)))\<rparr>
      | _ \<Rightarrow> Inl AxisError)"

definition mean_axes_1_2 :: "ndarray \<Rightarrow> error + ndarray" where
  "mean_axes_1_2 t =
     (case shape t of
        c # h # w # rest \<Rightarrow>
          Inr \<lparr>shape = c # rest,
               data = (\<lambda>idx. case idx of
                          k # r \<Rightarrow> sum01 h w (\<lambda>i j. data t (k # i # j # r)) / real (h * w)
                        | [] \<Rightarrow> 0)\<rparr>
      | _ \<Rightarrow> Inl AxisError)"

text \<open>
  Broadcasting, in the two forms the source uses. \<open>a - m\<close> and \<open>a /= s\<close> with \<open>m\<close>, \<open>s\<close>
  reduced from \<open>a\<close> over its first two axes: the shapes always fit. \<open>a *= v\<close> and
  \<open>a += v\<close> with a vector \<open>v\<close> of three numbers, in place: the last axis of \<open>a\<close> must
  have length 3, otherwise numpy raises ValueError.
\<close>

definition broadcast_tail :: "(real \<Rightarrow> real \<Rightarrow> real) \<Rightarrow> ndarray \<Rightarrow> ndarray \<Rightarrow> ndarray" where
  "broadcast_tail f a m = \<lparr>shape = shape a, data = (\<lambda>idx. f (data a idx) (data m (drop 2 idx)))\<rparr>"

definition inplace_vec3 ::
  "(real \<Rightarrow> real \<Rightarrow> real) \<Rightarrow> ndarray \<Rightarrow> real list \<Rightarrow> error + ndarray" where
  "inplace_vec3 f a v =
     (if shape a \<noteq> [] \<and> last (shape a) = 3
      then Inr \<lparr>shape = shape a, data = (\<lambda>idx. f (data a idx) (v ! last idx))\<rparr>
      else Inl ValueError)"

text \<open>The two constant vectors of the source (the ImageNet channel statistics).\<close>

definition imagenet_mean :: "real list" where
  "imagenet_mean = [485 / 1000, 456 / 1000, 406 / 1000]"

definition imagenet_std :: "real list" where
  "imagenet_std = [229 / 1000, 224 / 1000, 225 / 1000]"

text \<open>
  The statements of \<open>create_feature_maximizer\<close> after the loops. First the image is
  taken out of torch, in the layout rows, columns, channels:
  \<^verbatim>\<open>
  img = np.moveaxis(img.detach().numpy().squeeze(),0,2)
  \<close>
  Then each channel is shifted and scaled:
  \<^verbatim>\<open>
  img_new = img - img.mean(axis=(0,1))
  img_new /= img_new.std(axis=(0,1))
  img_new *= np.array([0.229, 0.224, 0.225])
  img_new += np.array([0.485, 0.456, 0.406])
  \<close>
  A division by a zero standard deviation gives \<open>nan\<close> or \<open>inf\<close> in numpy (a warning, no
  exception) and 0 here.
\<close>

definition to_numpy_image :: "ndarray \<Rightarrow> error + ndarray" where
  "to_numpy_image t = moveaxis_0_2 (squeeze t)"

definition renormalize :: "ndarray \<Rightarrow> error + ndarray" where
  "renormalize img =
     (case mean_axes_0_1 img of
        Inl e \<Rightarrow> Inl e
      | Inr m \<Rightarrow>
          (let img_new = broadcast_tail (-) img m
           in case std_axes_0_1 img_new of
                Inl e \<Rightarrow> Inl e
              | Inr s \<Rightarrow>
                  (let img_new = broadcast_tail (/) img_new s
                   in case inplace_vec3 (*) img_new imagenet_std of
                        Inl e \<Rightarrow> Inl e
                      | Inr img_new \<Rightarrow> inplace_vec3 (+) img_new imagenet_mean)))"

subsection \<open>The network, its tensors and its forward hooks\<close>

text \<open>
  The pretrained classifier is torchvision's VGG: \<open>model.features\<close> is a \<open>Sequential\<close> of
  distinct modules, applied in order, followed by the pooling, flattening and classifier
  (here \<open>head\<close>, which starts with a pooling module and so writes a tensor of its own).
  Each module computes from the parameters (\<open>weights\<close>) and may raise. A module is
  either in place (\<open>nn.ReLU(inplace=True)\<close>, which in VGG follows every convolution): it
  writes its result into the tensor it was given and returns that same tensor; or it
  returns a new tensor. \<open>fwd_hooks net l\<close> lists the handles of the forward hooks
  installed on \<open>features[l]\<close>; \<open>grad_acc\<close> lists the summands that \<open>backward()\<close> calls
  have accumulated into the \<open>.grad\<close> buffers of the parameters.
\<close>

record 'w layer =
  inplace :: bool
  compute :: "'w \<Rightarrow> ndarray \<Rightarrow> error + ndarray"

record 'w net =
  features :: "'w layer list"
  head :: "'w \<Rightarrow> ndarray \<Rightarrow> error + ndarray"
  weights :: "'w"
  grad_acc :: "'w list"
  fwd_hooks :: "nat \<Rightarrow> nat list"

text \<open>
  The forward pass through \<open>features\<close>, starting at module number \<open>l\<close>. The tensor
  objects of the pass are numbered in the order of their creation, the input being
  number 0: \<open>older\<close> holds the values of all but the newest, \<open>cur\<close> the value of the
  newest, which is the one the next module is given. A module that is not in place adds
  a tensor; a module in place overwrites the newest. torch refuses an in-place operation
  on the input itself, a leaf that requires a gradient (RuntimeError). After a module has
  run, every hook installed on it is called with the module's output, which is a
  reference to a tensor object, not a copy: the pass returns the values of the older
  tensors, the value of the newest, and the list of (handle, tensor number) calls.
\<close>

fun run_features ::
  "nat \<Rightarrow> 'w layer list \<Rightarrow> 'w \<Rightarrow> (nat \<Rightarrow> nat list) \<Rightarrow> ndarray list \<Rightarrow> ndarray
     \<Rightarrow> error + ndarray list \<times> ndarray \<times> (nat \<times> nat) list"
where
  "run_features l [] wt hooks older cur = Inr (older, cur, [])"
| "run_features l (m # ms) wt hooks older cur =
     (if inplace m \<and> older = [] then Inl RuntimeError
      else (case compute m wt cur of
              Inl e \<Rightarrow> Inl e
            | Inr y \<Rightarrow>
                (case run_features (Suc l) ms wt hooks (if inplace m then older else older @ [cur]) y of
                   Inl e \<Rightarrow> Inl e
                 | Inr (ts, z, fired) \<Rightarrow>
                     Inr (ts, z,
                          map (\<lambda>h. (h, length (if inplace m then older else older @ [cur])))
                              (hooks l) @ fired))))"

text \<open>
  \<open>model(img)\<close>: the final output, the values of all tensor objects of the pass through
  \<open>features\<close> as they stand at the end of the pass, and the hook calls.
\<close>

definition forward ::
  "'w net \<Rightarrow> ndarray \<Rightarrow> error + ndarray \<times> ndarray list \<times> (nat \<times> nat) list" where
  "forward net x =
     (case run_features 0 (features net) (weights net) (fwd_hooks net) [] x of
        Inl e \<Rightarrow> Inl e
      | Inr (older, cur, fired) \<Rightarrow>
          (case head net (weights net) cur of
             Inl e \<Rightarrow> Inl e
           | Inr out \<Rightarrow> Inr (out, older @ [cur], fired)))"

text \<open>
  What the hook function of the source, \<open>outputs.append(output)\<close>, has collected after a
  forward pass: the tensors passed to the hook with handle \<open>hook\<close>, by reference.
\<close>

definition collected :: "nat \<Rightarrow> (nat \<times> nat) list \<Rightarrow> nat list" where
  "collected hook fired = map snd (filter (\<lambda>p. fst p = hook) fired)"

subsection \<open>The environment of the notebook\<close>

text \<open>
  \<open>objects\<close> is the heap of network objects, by reference. \<open>model\<close> is the notebook's
  global variable of that name (\<open>None\<close> when no such global is defined), \<open>next_id\<close> the
  counter from which torch numbers hook handles, \<open>stdout\<close> what has been printed.
  \<open>calls\<close> is not in the source: each library call of the optimisation loop records
  itself there, with what it was given and what it returned (see \<open>call_resize\<close>,
  \<open>zero_grad\<close>, \<open>call_model\<close>, \<open>loss_backward\<close> and \<open>optimizer_step\<close> below), so that
  the number, the order and the data flow of the calls can be stated.
\<close>

datatype out = PrintShape "nat list" | PrintLoss int int real

datatype call =
  Resize int ndarray
| ZeroGrad
| Forward nat ndarray
| Backward ndarray
| OptimizerStep ndarray ndarray ndarray

record 'w world =
  objects :: "nat \<Rightarrow> 'w net"
  model :: "nat option"
  next_id :: nat
  stdout :: "out list"
  calls :: "call list"

text \<open>\<open>FeatureVisualizer.__init__\<close>: the object keeps a reference to the model passed in.\<close>

record feature_visualizer =
  self_model :: nat

definition init :: "nat \<Rightarrow> feature_visualizer" where
  "init m = \<lparr>self_model = m\<rparr>"

text \<open>A tensor that requires a gradient: its value and its \<open>.grad\<close> buffer.\<close>

record variable =
  val :: ndarray
  grad :: "ndarray option"

definition add_arrays :: "ndarray \<Rightarrow> ndarray \<Rightarrow> ndarray" where
  "add_arrays a b = \<lparr>shape = shape a, data = (\<lambda>idx. data a idx + data b idx)\<rparr>"

text \<open>
  The libraries and the platform the notebook runs on, as parameters:
  \<^item> \<open>float_pow x j\<close> and \<open>float_mul x n\<close>: Python's \<open>x ** j\<close> and \<open>x * n\<close> for a float
    \<open>x\<close> and integers \<open>j\<close>, \<open>n\<close>, rounded as the platform rounds them. \<open>**\<close> raises
    OverflowError, or ZeroDivisionError; an infinite product makes the \<open>int(...)\<close>
    around it raise OverflowError, which is here the product's own error;
  \<^item> \<open>skimage_resize a r c\<close>: the interpolated entries of \<open>skimage.transform.resize\<close>;
  \<^item> \<open>backward f x wt\<close>: automatic differentiation of the scalar \<open>f\<close> at the input \<open>x\<close>
    and the parameters \<open>wt\<close>, giving the gradient for the input and for the parameters;
  \<^item> \<open>adam_init\<close> and \<open>adam_update lr weight_decay state value gradient\<close>:
    \<open>torch.optim.Adam\<close> on one tensor, giving the new state and the new entries (the
    step writes them into the tensor in place, so its shape stays);
  \<^item> \<open>image_open\<close>, \<open>tv_resize\<close>, \<open>to_tensor\<close>: \<open>PIL.Image.open\<close>, and torchvision's
    \<open>Resize\<close> and \<open>ToTensor\<close>.
\<close>

record ('w, 'o, 'p) library =
  float_pow :: "real \<Rightarrow> int \<Rightarrow> error + real"
  float_mul :: "real \<Rightarrow> int \<Rightarrow> error + real"
  skimage_resize :: "ndarray \<Rightarrow> nat \<Rightarrow> nat \<Rightarrow> error + (nat list \<Rightarrow> real)"
  backward :: "(ndarray \<Rightarrow> 'w \<Rightarrow> error + real) \<Rightarrow> ndarray \<Rightarrow> 'w \<Rightarrow> ndarray \<times> 'w"
  adam_init :: "'o"
  adam_update :: "real \<Rightarrow> real \<Rightarrow> 'o \<Rightarrow> ndarray \<Rightarrow> ndarray \<Rightarrow> 'o \<times> (nat list \<Rightarrow> real)"
  image_open :: "string \<Rightarrow> error + 'p"
  tv_resize :: "int \<Rightarrow> 'p \<Rightarrow> error + 'p"
  to_tensor :: "'p \<Rightarrow> ndarray"

text \<open>
  \<open>resize(a, (r, c))\<close> of skimage keeps the channel axis: the result has shape
  \<open>(r, c, channels)\<close>. A negative size is refused.
\<close>

definition resize :: "('w, 'o, 'p) library \<Rightarrow> ndarray \<Rightarrow> int \<times> int \<Rightarrow> error + ndarray" where
  "resize lib a sz =
     (case sz of (r, c) \<Rightarrow>
        if r < 0 \<or> c < 0 then Inl ValueError
        else (case skimage_resize lib a (nat r) (nat c) of
                Inl e \<Rightarrow> Inl e
              | Inr px \<Rightarrow> Inr \<lparr>shape = nat r # nat c # drop 2 (shape a), data = px\<rparr>))"

text \<open>\<open>module.register_forward_hook(hook_fn)\<close> and \<open>hook.remove()\<close> on \<open>features[l]\<close>.\<close>

definition register_forward_hook :: "'w world \<Rightarrow> nat \<Rightarrow> nat \<Rightarrow> nat \<times> 'w world" where
  "register_forward_hook w r l =
     (let net = objects w r;
          hook = next_id w
      in (hook,
          w\<lparr>objects := (objects w)(r := net\<lparr>fwd_hooks := (fwd_hooks net)(l := fwd_hooks net l @ [hook])\<rparr>),
            next_id := Suc hook\<rparr>))"

definition remove_hook :: "'w world \<Rightarrow> nat \<Rightarrow> nat \<Rightarrow> nat \<Rightarrow> 'w world" where
  "remove_hook w r l hook =
     (let net = objects w r
      in w\<lparr>objects := (objects w)(r := net\<lparr>fwd_hooks := (fwd_hooks net)(l := removeAll hook (fwd_hooks net l))\<rparr>)\<rparr>)"

text \<open>
  Python's \<open>int(x)\<close> on a float truncates towards zero. \<open>np.uint8\<close> on a float truncates
  in the same way and keeps the low eight bits (what numpy does on the usual platforms;
  the C standard leaves the conversion of a negative float open).
\<close>

definition py_int :: "real \<Rightarrow> int" where
  "py_int x = (if 0 \<le> x then \<lfloor>x\<rfloor> else \<lceil>x\<rceil>)"

definition np_uint8 :: "real \<Rightarrow> 8 word" where
  "np_uint8 x = word_of_int (py_int x)"

text \<open>
  \<open>np.uint8(np.random.uniform(-125, 125, (3,imsize,imsize)))/255\<close>, with the numbers drawn
  by the generator given as \<open>draws\<close>. numpy refuses a negative dimension.
\<close>

definition random_image :: "(nat list \<Rightarrow> real) \<Rightarrow> int \<Rightarrow> error + ndarray" where
  "random_image draws imsize =
     (if imsize < 0 then Inl ValueError
      else Inr \<lparr>shape = [3, nat imsize, nat imsize],
                data = (\<lambda>idx. real (unat (np_uint8 (draws idx))) / 255)\<rparr>)"

text \<open>
  The library calls of the optimisation loop. Each appends to \<open>calls\<close> what it was given
  and what it returned.
  \<^item> \<open>resize(a, (sz, sz))\<close>;
  \<^item> \<open>optimizer.zero_grad()\<close>: the gradient buffer of the image is emptied;
  \<^item> \<open>model(img)\<close>, on the network object \<open>r\<close>;
  \<^item> \<open>loss.backward()\<close>, for the loss that is the function \<open>f\<close> of the image and the
    parameters: the gradients are added into the buffers of the image and of the
    parameters;
  \<^item> \<open>optimizer.step()\<close>, of \<open>Adam([img], lr=1e-1, weight_decay=1e-6)\<close>: a tensor
    without a gradient is left as it is.
\<close>

definition call_resize ::
  "('w, 'o, 'p) library \<Rightarrow> 'w world \<Rightarrow> ndarray \<Rightarrow> int \<Rightarrow> error + ndarray \<times> 'w world" where
  "call_resize lib w a sz =
     (case resize lib a (sz, sz) of
        Inl e \<Rightarrow> Inl e
      | Inr b \<Rightarrow> Inr (b, w\<lparr>calls := calls w @ [Resize sz b]\<rparr>))"

definition zero_grad :: "'w world \<Rightarrow> variable \<Rightarrow> variable \<times> 'w world" where
  "zero_grad w img = (img\<lparr>grad := None\<rparr>, w\<lparr>calls := calls w @ [ZeroGrad]\<rparr>)"

definition call_model ::
  "'w world \<Rightarrow> nat \<Rightarrow> ndarray
     \<Rightarrow> error + (ndarray \<times> ndarray list \<times> (nat \<times> nat) list) \<times> 'w world" where
  "call_model w r x =
     (case forward (objects w r) x of
        Inl e \<Rightarrow> Inl e
      | Inr res \<Rightarrow> Inr (res, w\<lparr>calls := calls w @ [Forward r x]\<rparr>))"

definition loss_backward ::
  "('w, 'o, 'p) library \<Rightarrow> 'w world \<Rightarrow> nat \<Rightarrow> (ndarray \<Rightarrow> 'w \<Rightarrow> error + real) \<Rightarrow> variable
     \<Rightarrow> variable \<times> 'w world" where
  "loss_backward lib w r f img =
     (let net = objects w r;
          g = backward lib f (val img) (weights net)
      in (img\<lparr>grad := Some (case grad img of None \<Rightarrow> fst g | Some g0 \<Rightarrow> add_arrays g0 (fst g))\<rparr>,
          w\<lparr>objects := (objects w)(r := net\<lparr>grad_acc := grad_acc net @ [snd g]\<rparr>),
            calls := calls w @ [Backward (fst g)]\<rparr>))"

definition optimizer_step ::
  "('w, 'o, 'p) library \<Rightarrow> 'w world \<Rightarrow> 'o \<Rightarrow> variable \<Rightarrow> 'o \<times> variable \<times> 'w world" where
  "optimizer_step lib w opt img =
     (case grad img of
        None \<Rightarrow> (opt, img, w)
      | Some g \<Rightarrow>
          (let u = adam_update lib (1 / 10) (1 / 1000000) opt (val img) g;
               x' = \<lparr>shape = shape (val img), data = snd u\<rparr>
           in (fst u, img\<lparr>val := x'\<rparr>, w\<lparr>calls := calls w @ [OptimizerStep (val img) g x']\<rparr>)))"

subsection \<open>\<open>create_feature_maximizer\<close>\<close>

text \<open>
  \<open>-outputs[0][0,kernel_index].mean()\<close> after a forward pass: \<open>outputs[0]\<close> is the first
  tensor the hook was called with, read as it stands after the pass; on an empty list it
  raises IndexError.
\<close>

definition read_loss :: "nat \<Rightarrow> int \<Rightarrow> ndarray list \<Rightarrow> (nat \<times> nat) list \<Rightarrow> error + real" where
  "read_loss hook kernel_index ts fired =
     (case collected hook fired of
        [] \<Rightarrow> Inl IndexError
      | t # _ \<Rightarrow>
          (case index2 (ts ! t) 0 kernel_index of
             Inl e \<Rightarrow> Inl e
           | Inr act \<Rightarrow> Inr (- mean_all act)))"

text \<open>
  The scalar the source differentiates, as a function of the image and the parameters:
  the forward pass of \<open>net\<close>, then the loss read from what the hook collected.
\<close>

definition hooked_loss :: "'w net \<Rightarrow> nat \<Rightarrow> int \<Rightarrow> ndarray \<Rightarrow> 'w \<Rightarrow> error + real" where
  "hooked_loss net hook kernel_index x wt =
     (case forward (net\<lparr>weights := wt\<rparr>) x of
        Inl e \<Rightarrow> Inl e
      | Inr (output, ts, fired) \<Rightarrow> read_loss hook kernel_index ts fired)"

text \<open>
  One pass of the inner loop (the body of \<open>for i in range(n_steps)\<close>). The state is the
  optimizer's, the image with its gradient buffer, and the environment. The source names
  the global \<open>model\<close> here, not \<open>self.model\<close>.
  \<^verbatim>\<open>
  optimizer.zero_grad()
  outputs = []
  hook = model.features[layer_index].register_forward_hook(hook_fn)
  output = model(img)
  loss = -outputs[0][0,kernel_index].mean()
  print("Negative Mean activation for layer:", ..., loss.item())
  loss.backward()
  optimizer.step()
  hook.remove()
  \<close>
\<close>

definition inner_step ::
  "('w, 'o, 'p) library \<Rightarrow> int \<Rightarrow> int \<Rightarrow> 'o \<times> variable \<times> 'w world
     \<Rightarrow> error + 'o \<times> variable \<times> 'w world"
where
  "inner_step lib layer_index kernel_index s =
     (case s of (opt, img, w) \<Rightarrow>
      (case zero_grad w img of (img, w) \<Rightarrow>
       (case model w of
          None \<Rightarrow> Inl NameError
        | Some r \<Rightarrow>
            (case py_index (length (features (objects w r))) layer_index of
               Inl e \<Rightarrow> Inl e
             | Inr l \<Rightarrow>
                 (case register_forward_hook w r l of (hook, w) \<Rightarrow>
                  (case call_model w r (val img) of
                     Inl e \<Rightarrow> Inl e
                   | Inr ((output, ts, fired), w) \<Rightarrow>
                       (case read_loss hook kernel_index ts fired of
                          Inl e \<Rightarrow> Inl e
                        | Inr loss \<Rightarrow>
                            (case loss_backward lib
                                    (w\<lparr>stdout := stdout w @ [PrintLoss layer_index kernel_index loss]\<rparr>)
                                    r (hooked_loss (objects w r) hook kernel_index) img of
                               (img, w) \<Rightarrow>
                                 (case optimizer_step lib w opt img of
                                    (opt, img, w) \<Rightarrow> Inr (opt, img, remove_hook w r l hook))))))))))"

text \<open>\<open>for i in range(n_steps)\<close>: the step, \<open>n\<close> times, stopping at the first exception.\<close>

fun inner_loop ::
  "('w, 'o, 'p) library \<Rightarrow> int \<Rightarrow> int \<Rightarrow> nat \<Rightarrow> 'o \<times> variable \<times> 'w world
     \<Rightarrow> error + 'o \<times> variable \<times> 'w world"
where
  "inner_loop lib layer_index kernel_index 0 s = Inr s"
| "inner_loop lib layer_index kernel_index (Suc n) s =
     (case inner_step lib layer_index kernel_index s of
        Inl e \<Rightarrow> Inl e
      | Inr s' \<Rightarrow> inner_loop lib layer_index kernel_index n s')"

text \<open>
  The head of the outer loop's body:
  \<^verbatim>\<open>
  sz = int(upscaling_factor**j * imsize)
  img = resize(img.detach().numpy().squeeze().transpose(1,2,0), (sz, sz)).transpose(2,0,1)
  img = torch.from_numpy(img)
  img = img.to(torch.float32).detach().unsqueeze(0)
  img = img.clone().detach().requires_grad_(True)
  \<close>
  The power and the product are the platform's floats; \<open>int\<close> truncates.
\<close>

definition side :: "('w, 'o, 'p) library \<Rightarrow> real \<Rightarrow> int \<Rightarrow> int \<Rightarrow> error + int" where
  "side lib upscaling_factor imsize j =
     (case float_pow lib upscaling_factor j of
        Inl e \<Rightarrow> Inl e
      | Inr p \<Rightarrow>
          (case float_mul lib p imsize of
             Inl e \<Rightarrow> Inl e
           | Inr q \<Rightarrow> Inr (py_int q)))"

definition upscale ::
  "('w, 'o, 'p) library \<Rightarrow> 'w world \<Rightarrow> real \<Rightarrow> int \<Rightarrow> nat \<Rightarrow> ndarray
     \<Rightarrow> error + ndarray \<times> 'w world" where
  "upscale lib w upscaling_factor imsize j img =
     (case side lib upscaling_factor imsize (int j) of
        Inl e \<Rightarrow> Inl e
      | Inr sz \<Rightarrow>
          (case transpose_1_2_0 (squeeze img) of
             Inl e \<Rightarrow> Inl e
           | Inr a \<Rightarrow>
               (case call_resize lib w a sz of
                  Inl e \<Rightarrow> Inl e
                | Inr (b, w) \<Rightarrow>
                    (case transpose_2_0_1 b of
                       Inl e \<Rightarrow> Inl e
                     | Inr c \<Rightarrow> Inr (unsqueeze0 c, w)))))"

text \<open>
  \<open>for j in range(upscaling_steps)\<close>, over the list of the values of \<open>j\<close>: upscale, print
  the shape, make a new Adam optimizer for the new image, run the inner loop.
\<close>

fun outer_loop ::
  "('w, 'o, 'p) library \<Rightarrow> int \<Rightarrow> int \<Rightarrow> int \<Rightarrow> int \<Rightarrow> real \<Rightarrow> nat list \<Rightarrow> variable \<times> 'w world
     \<Rightarrow> error + variable \<times> 'w world"
where
  "outer_loop lib layer_index kernel_index n_steps imsize upscaling_factor [] s = Inr s"
| "outer_loop lib layer_index kernel_index n_steps imsize upscaling_factor (j # js) s =
     (case upscale lib (snd s) upscaling_factor imsize j (val (fst s)) of
        Inl e \<Rightarrow> Inl e
      | Inr (x, w) \<Rightarrow>
          (case inner_loop lib layer_index kernel_index (nat n_steps)
                  (adam_init lib, \<lparr>val = x, grad = None\<rparr>,
                   w\<lparr>stdout := stdout w @ [PrintShape (shape x)]\<rparr>) of
             Inl e \<Rightarrow> Inl e
           | Inr t \<Rightarrow>
               outer_loop lib layer_index kernel_index n_steps imsize upscaling_factor js
                 (fst (snd t), snd (snd t))))"

text \<open>
  The method, in two parts: \<open>optimize\<close> is the source up to the conversion to numpy
  (the random start image, the loops, \<open>np.moveaxis\<close>), \<open>create_feature_maximizer\<close> adds
  the renormalisation and returns. \<open>range(n)\<close> is empty for \<open>n \<le> 0\<close>. Neither \<open>self\<close>
  nor \<open>gaussian_blur\<close> occurs in the body of the source.
\<close>

definition optimize ::
  "('w, 'o, 'p) library \<Rightarrow> (nat list \<Rightarrow> real) \<Rightarrow> 'w world
     \<Rightarrow> int \<Rightarrow> int \<Rightarrow> int \<Rightarrow> int \<Rightarrow> int \<Rightarrow> real \<Rightarrow> error + ndarray \<times> 'w world"
where
  "optimize lib draws w layer_index kernel_index n_steps imsize upscaling_steps upscaling_factor =
     (case random_image draws imsize of
        Inl e \<Rightarrow> Inl e
      | Inr a \<Rightarrow>
          (case outer_loop lib layer_index kernel_index n_steps imsize upscaling_factor
                  [0..<nat upscaling_steps] (\<lparr>val = unsqueeze0 a, grad = None\<rparr>, w) of
             Inl e \<Rightarrow> Inl e
           | Inr s \<Rightarrow>
               (case to_numpy_image (val (fst s)) of
                  Inl e \<Rightarrow> Inl e
                | Inr img \<Rightarrow> Inr (img, snd s))))"

definition create_feature_maximizer ::
  "('w, 'o, 'p) library \<Rightarrow> (nat list \<Rightarrow> real) \<Rightarrow> feature_visualizer \<Rightarrow> 'w world
     \<Rightarrow> int \<Rightarrow> int \<Rightarrow> int \<Rightarrow> real \<Rightarrow> int \<Rightarrow> int \<Rightarrow> real \<Rightarrow> error + ndarray \<times> 'w world"
where
  "create_feature_maximizer lib draws self w layer_index kernel_index n_steps gaussian_blur
       imsize upscaling_steps upscaling_factor =
     (case optimize lib draws w layer_index kernel_index n_steps imsize upscaling_steps
             upscaling_factor of
        Inl e \<Rightarrow> Inl e
      | Inr s \<Rightarrow>
          (case renormalize (fst s) of
             Inl e \<Rightarrow> Inl e
           | Inr img_new \<Rightarrow> Inr (img_new, snd s)))"

subsection \<open>\<open>get_mean_layer_activations\<close>\<close>

text \<open>
  \<open>transforms.Normalize(mean, std)\<close> on a tensor image \<open>(C, H, W)\<close>: entry by entry
  \<open>(x - mean[c]) / std[c]\<close>; torchvision refuses a tensor that has not three axes, and
  the in-place subtraction fails unless \<open>C\<close> is 3.
\<close>

definition tv_normalize :: "real list \<Rightarrow> real list \<Rightarrow> ndarray \<Rightarrow> error + ndarray" where
  "tv_normalize mean std t =
     (case shape t of
        [c, h, w] \<Rightarrow>
          if c = 3
          then Inr \<lparr>shape = shape t, data = (\<lambda>idx. (data t idx - mean ! hd idx) / std ! hd idx)\<rparr>
          else Inl RuntimeError
      | _ \<Rightarrow> Inl ValueError)"

text \<open>
  \<^verbatim>\<open>
  img = image_loader(image_path)
  hook = self.model.features[layer_index].register_forward_hook(hook_fn)
  output = self.model(img)
  hook.remove()
  mean_layer_activations = np.mean(outputs[0].detach().cpu().numpy().squeeze(),axis=(1,2))
  \<close>
  where \<open>image_loader\<close> opens the file and applies \<open>Resize(imsize)\<close>, \<open>ToTensor()\<close>,
  \<open>Normalize(...)\<close> and \<open>unsqueeze(0)\<close>. \<open>outputs[0]\<close> is read after the pass, as in
  \<open>create_feature_maximizer\<close>.
\<close>

definition image_loader :: "('w, 'o, 'p) library \<Rightarrow> int \<Rightarrow> string \<Rightarrow> error + ndarray" where
  "image_loader lib imsize image_name =
     (case image_open lib image_name of
        Inl e \<Rightarrow> Inl e
      | Inr im \<Rightarrow>
          (case tv_resize lib imsize im of
             Inl e \<Rightarrow> Inl e
           | Inr im \<Rightarrow>
               (case tv_normalize imagenet_mean imagenet_std (to_tensor lib im) of
                  Inl e \<Rightarrow> Inl e
                | Inr im \<Rightarrow> Inr (unsqueeze0 im))))"

definition get_mean_layer_activations ::
  "('w, 'o, 'p) library \<Rightarrow> feature_visualizer \<Rightarrow> 'w world \<Rightarrow> string \<Rightarrow> int \<Rightarrow> int
     \<Rightarrow> error + ndarray \<times> 'w world"
where
  "get_mean_layer_activations lib self w image_path layer_index imsize =
     (case image_loader lib imsize image_path of
        Inl e \<Rightarrow> Inl e
      | Inr img \<Rightarrow>
          (let r = self_model self
           in case py_index (length (features (objects w r))) layer_index of
                Inl e \<Rightarrow> Inl e
              | Inr l \<Rightarrow>
                  (case register_forward_hook w r l of
                     (hook, w) \<Rightarrow>
                       (case forward (objects w r) img of
                          Inl e \<Rightarrow> Inl e
                        | Inr (output, ts, fired) \<Rightarrow>
                            (let w = remove_hook w r l hook
                             in case collected hook fired of
                                  [] \<Rightarrow> Inl IndexError
                                | t # _ \<Rightarrow>
                                    (case mean_axes_1_2 (squeeze (ts ! t)) of
                                       Inl e \<Rightarrow> Inl e
                                     | Inr m \<Rightarrow> Inr (m, w)))))))"

subsection \<open>The notions the statements below use\<close>

text \<open>
  The activation of \<open>features[l]\<close> on an input: the first \<open>l + 1\<close> modules applied in
  order. What the tensor returned by \<open>features[l]\<close> holds once the pass is over is the
  activation of the last of the in-place modules that directly follow \<open>features[l]\<close>
  (of \<open>features[l]\<close> itself when none does).
\<close>

fun apply_layers :: "'w \<Rightarrow> 'w layer list \<Rightarrow> ndarray \<Rightarrow> error + ndarray" where
  "apply_layers wt [] x = Inr x"
| "apply_layers wt (m # ms) x =
     (case compute m wt x of Inl e \<Rightarrow> Inl e | Inr y \<Rightarrow> apply_layers wt ms y)"

definition layer_activation :: "'w net \<Rightarrow> nat \<Rightarrow> ndarray \<Rightarrow> error + ndarray" where
  "layer_activation net l x = apply_layers (weights net) (take (Suc l) (features net)) x"

definition inplace_run :: "'w net \<Rightarrow> nat \<Rightarrow> nat" where
  "inplace_run net l = length (takeWhile inplace (drop (Suc l) (features net)))"

definition hooked_activation :: "'w net \<Rightarrow> nat \<Rightarrow> ndarray \<Rightarrow> error + ndarray" where
  "hooked_activation net l x =
     apply_layers (weights net) (take (Suc l + inplace_run net l) (features net)) x"

text \<open>
  The mean activation of a unit: for an activation of shape \<open>(B, C, H, W)\<close>, the mean
  over the feature map of channel \<open>k\<close> of the first image of the batch, \<open>k\<close> counted from
  the end when negative.
\<close>

definition unit_mean :: "ndarray \<Rightarrow> int \<Rightarrow> error + real" where
  "unit_mean a k =
     (case shape a of
        [b, c, h, w] \<Rightarrow>
          if 0 < b \<and> - int c \<le> k \<and> k < int c
          then Inr (sum01 h w (\<lambda>i j. data a [0, nat (k mod int c), i, j]) / real (h * w))
          else Inl IndexError
      | _ \<Rightarrow> Inl ValueError)"

definition mean_activation :: "'w net \<Rightarrow> int \<Rightarrow> int \<Rightarrow> ndarray \<Rightarrow> error + real" where
  "mean_activation net layer_index kernel_index x =
     (case py_index (length (features net)) layer_index of
        Inl e \<Rightarrow> Inl e
      | Inr l \<Rightarrow>
          (case layer_activation net l x of
             Inl e \<Rightarrow> Inl e
           | Inr a \<Rightarrow> unit_mean a kernel_index))"


text \<open>The network with one more hook, of handle \<open>hook\<close>, installed on \<open>features[l]\<close>.\<close>

definition hooked :: "'w net \<Rightarrow> nat \<Rightarrow> nat \<Rightarrow> 'w net" where
  "hooked net l hook = net\<lparr>fwd_hooks := (fwd_hooks net)(l := fwd_hooks net l @ [hook])\<rparr>"

text \<open>torch numbers hook handles from a counter: every installed handle is below it.\<close>

definition hooks_fresh :: "'w world \<Rightarrow> bool" where
  "hooks_fresh w = (\<forall>r l. \<forall>h \<in> set (fwd_hooks (objects w r) l). h < next_id w)"

text \<open>
  What a call must leave as it was in every network object: the modules, the parameters
  and the installed hooks. (The gradient buffers are not among them.)
\<close>

definition same_networks :: "'w world \<Rightarrow> 'w world \<Rightarrow> bool" where
  "same_networks w w' =
     (\<forall>r. features (objects w' r) = features (objects w r)
        \<and> head (objects w' r) = head (objects w r)
        \<and> weights (objects w' r) = weights (objects w r)
        \<and> fwd_hooks (objects w' r) = fwd_hooks (objects w r))"










subsection \<open>A small instance\<close>

text \<open>
  A concrete library, networks and environments, on which the definitions can be
  evaluated: float operations without rounding (the runs below use powers of two and
  small integers only, which floats hold exactly), a resize that copies entries,
  gradients by unit differences (exact for the affine network below), a plain gradient
  step in place of Adam, two image files (one of two by two pixels with three different
  channels, one of a single pixel). One network has one module, which scales its input by
  the one parameter; a second has that module followed by a ReLU in place, as a
  convolution of VGG is.
\<close>

definition bump :: "ndarray \<Rightarrow> nat list \<Rightarrow> ndarray" where
  "bump x idx = \<lparr>shape = shape x, data = (\<lambda>i. data x i + (if i = idx then 1 else 0))\<rparr>"

definition value_of :: "error + real \<Rightarrow> real" where
  "value_of r = (case r of Inl e \<Rightarrow> 0 | Inr v \<Rightarrow> v)"

definition small_image :: ndarray where
  "small_image =
     \<lparr>shape = [3, 2, 2], data = (\<lambda>idx. case idx of [c, i, j] \<Rightarrow> real c + real i | _ \<Rightarrow> 0)\<rparr>"

definition dot_image :: ndarray where
  "dot_image = \<lparr>shape = [3, 1, 1], data = (\<lambda>idx. 1 / 2)\<rparr>"

definition small_lib :: "(real, unit, ndarray) library" where
  "small_lib =
     \<lparr>float_pow = (\<lambda>x j. Inr (power_int x j)),
      float_mul = (\<lambda>x n. Inr (x * real_of_int n)),
      skimage_resize = (\<lambda>a r c. Inr (data a)),
      backward = (\<lambda>f x wt.
         (\<lparr>shape = shape x, data = (\<lambda>idx. value_of (f (bump x idx) wt) - value_of (f x wt))\<rparr>, wt)),
      adam_init = (),
      adam_update = (\<lambda>lr wd st v g. (st, (\<lambda>idx. data v idx - lr * data g idx))),
      image_open = (\<lambda>p. if p = ''cat.jpg'' then Inr small_image
                         else if p = ''dot.jpg'' then Inr dot_image else Inl OSError),
      tv_resize = (\<lambda>sz im. Inr im),
      to_tensor = (\<lambda>im. im)\<rparr>"

definition scale_layer :: "real layer" where
  "scale_layer =
     \<lparr>inplace = False,
      compute = (\<lambda>wt x. Inr \<lparr>shape = shape x, data = (\<lambda>idx. wt * data x idx)\<rparr>)\<rparr>"

definition relu_layer :: "real layer" where
  "relu_layer =
     \<lparr>inplace = True,
      compute = (\<lambda>wt x. Inr \<lparr>shape = shape x, data = (\<lambda>idx. max 0 (data x idx))\<rparr>)\<rparr>"

definition small_net :: "real net" where
  "small_net =
     \<lparr>features = [scale_layer], head = (\<lambda>wt x. Inr x), weights = 2, grad_acc = [],
      fwd_hooks = (\<lambda>l. [])\<rparr>"

definition relu_net :: "real net" where
  "relu_net =
     \<lparr>features = [scale_layer, relu_layer], head = (\<lambda>wt x. Inr x), weights = - 2, grad_acc = [],
      fwd_hooks = (\<lambda>l. [])\<rparr>"

definition empty_net :: "real net" where
  "empty_net =
     \<lparr>features = [], head = (\<lambda>wt x. Inr x), weights = 1, grad_acc = [], fwd_hooks = (\<lambda>l. [])\<rparr>"

text \<open>
  Object 0 is \<open>small_net\<close>, every other object has no module at all. The global \<open>model\<close>
  is object 0. In \<open>relu_world\<close> object 0 is \<open>relu_net\<close> instead.
\<close>

definition small_world :: "real world" where
  "small_world =
     \<lparr>objects = (\<lambda>r. if r = 0 then small_net else empty_net), model = Some 0, next_id = 0,
      stdout = [], calls = []\<rparr>"

definition relu_world :: "real world" where
  "relu_world =
     \<lparr>objects = (\<lambda>r. if r = 0 then relu_net else empty_net), model = Some 0, next_id = 0,
      stdout = [], calls = []\<rparr>"


text \<open>Random draws that become the bytes 0 (first row) and 255 (second row).\<close>

definition small_draws :: "nat list \<Rightarrow> real" where
  "small_draws idx = (case idx of [c, i, j] \<Rightarrow> if i = 0 then 1 / 2 else - 1 | _ \<Rightarrow> 0)"

section \<open>Tensors and forward hooks\<close>

lemma collected_append: "collected h (xs @ ys) = collected h xs @ collected h ys"
  by (simp add: collected_def)

lemma collected_hooks: "collected h (map (\<lambda>h'. (h', t)) hs) = replicate (count_list hs h) t"
  by (induction hs) (auto simp: collected_def)

lemma apply_layers_append:
  "apply_layers wt (ms @ ns) x =
     (case apply_layers wt ms x of Inl e \<Rightarrow> Inl e | Inr y \<Rightarrow> apply_layers wt ns y)"
  by (induction ms arbitrary: x) (auto split: sum.splits)

lemma run_features_Cons:
  assumes "run_features l (m # ms) wt hooks older cur = Inr (ts, z, fired)"
  obtains y fired' where
    "\<not> (inplace m \<and> older = [])"
    "compute m wt cur = Inr y"
    "run_features (Suc l) ms wt hooks (if inplace m then older else older @ [cur]) y = Inr (ts, z, fired')"
    "fired = map (\<lambda>h. (h, length (if inplace m then older else older @ [cur]))) (hooks l) @ fired'"
  using assms by (auto split: if_splits sum.splits prod.splits)

lemma run_features_frozen:
  "run_features l ms wt hooks older cur = Inr (ts, z, fired) \<Longrightarrow>
     length older \<le> length ts \<and> take (length older) ts = older
     \<and> apply_layers wt (takeWhile inplace ms) cur = Inr ((ts @ [z]) ! length older)"
proof (induction ms arbitrary: l older cur fired)
  case Nil
  then show ?case by simp
next
  case (Cons m ms)
  from Cons.prems obtain y fired' where
    ok: "\<not> (inplace m \<and> older = [])" and y: "compute m wt cur = Inr y"
    and r: "run_features (Suc l) ms wt hooks (if inplace m then older else older @ [cur]) y = Inr (ts, z, fired')"
    by (rule run_features_Cons)
  show ?case
  proof (cases "inplace m")
    case True
    with Cons.IH [OF r] y show ?thesis by simp
  next
    case False
    with Cons.IH [OF r] have len: "Suc (length older) \<le> length ts"
      and tk: "take (Suc (length older)) ts = older @ [cur]" by simp_all
    from tk have "take (length older) (take (Suc (length older)) ts) = older" by simp
    then have t1: "take (length older) ts = older" by (simp add: min_def)
    from tk len have "ts ! length older = cur"
      by (metis lessI nth_append_length nth_take)
    with len have "(ts @ [z]) ! length older = cur" by (simp add: nth_append)
    with False len t1 show ?thesis by simp
  qed
qed

lemma run_features_silent:
  "run_features l ms wt hooks older cur = Inr (ts, z, fired) \<Longrightarrow>
     (\<And>i. l \<le> i \<Longrightarrow> h \<notin> set (hooks i)) \<Longrightarrow> collected h fired = []"
proof (induction ms arbitrary: l older cur fired)
  case Nil
  then show ?case by (simp add: collected_def)
next
  case (Cons m ms)
  from Cons.prems(1) obtain y fired' where
    r: "run_features (Suc l) ms wt hooks (if inplace m then older else older @ [cur]) y = Inr (ts, z, fired')"
    and f: "fired = map (\<lambda>h. (h, length (if inplace m then older else older @ [cur]))) (hooks l) @ fired'"
    by (rule run_features_Cons)
  have "collected h fired' = []"
    using Cons.IH [OF r] Cons.prems(2) by simp
  moreover have "count_list (hooks l) h = 0"
    using Cons.prems(2) [of l] by (simp add: count_list_0_iff)
  ultimately show ?case
    by (simp add: f collected_append collected_hooks)
qed

lemma run_features_once:
  "run_features l0 ms wt hooks older cur = Inr (ts, z, fired) \<Longrightarrow> l0 \<le> l \<Longrightarrow> l < l0 + length ms
     \<Longrightarrow> (\<And>i. i \<noteq> l \<Longrightarrow> h \<notin> set (hooks i)) \<Longrightarrow> count_list (hooks l) h = 1
     \<Longrightarrow> \<exists>t a.
           collected h fired = [t] \<and> t \<le> length ts
         \<and> apply_layers wt (take (Suc (l - l0)) ms) cur = Inr a
         \<and> apply_layers wt (takeWhile inplace (drop (Suc (l - l0)) ms)) a = Inr ((ts @ [z]) ! t)"
proof (induction ms arbitrary: l0 older cur fired)
  case Nil
  then show ?case by simp
next
  case (Cons m ms)
  let ?older = "if inplace m then older else older @ [cur]"
  from Cons.prems(1) obtain y fired' where
    y: "compute m wt cur = Inr y"
    and r: "run_features (Suc l0) ms wt hooks ?older y = Inr (ts, z, fired')"
    and f: "fired = map (\<lambda>h. (h, length ?older)) (hooks l0) @ fired'"
    by (rule run_features_Cons)
  show ?case
  proof (cases "l = l0")
    case True
    have "collected h fired' = []"
      using run_features_silent [OF r] Cons.prems(4) True by simp
    then have c: "collected h fired = [length ?older]"
      using Cons.prems(5) True by (simp add: f collected_append collected_hooks)
    from run_features_frozen [OF r] have "length ?older \<le> length ts"
      and "apply_layers wt (takeWhile inplace ms) y = Inr ((ts @ [z]) ! length ?older)"
      by simp_all
    with c y True show ?thesis by simp
  next
    case False
    then have lt: "Suc l0 \<le> l" "l < Suc l0 + length ms"
      using Cons.prems(2,3) by simp_all
    from Cons.IH [OF r lt Cons.prems(4) Cons.prems(5)]
    obtain t a where c: "collected h fired' = [t]" and t: "t \<le> length ts"
      and a: "apply_layers wt (take (Suc (l - Suc l0)) ms) y = Inr a"
      and v: "apply_layers wt (takeWhile inplace (drop (Suc (l - Suc l0)) ms)) a = Inr ((ts @ [z]) ! t)"
      by blast
    have "count_list (hooks l0) h = 0"
      using Cons.prems(4) [of l0] False by (simp add: count_list_0_iff)
    moreover have "Suc (l - l0) = Suc (Suc (l - Suc l0))"
      using lt by simp
    ultimately show ?thesis
      using a c t v y by (simp add: f collected_append collected_hooks)
  qed
qed

lemma hooked_activation_split:
  assumes "apply_layers wt (take (Suc l) ms) x = Inr a"
    and "apply_layers wt (takeWhile inplace (drop (Suc l) ms)) a = Inr v"
  shows "apply_layers wt (take (Suc l + length (takeWhile inplace (drop (Suc l) ms))) ms) x = Inr v"
proof -
  let ?k = "length (takeWhile inplace (drop (Suc l) ms))"
  have "take (Suc l + ?k) ms = take (Suc l) ms @ take ?k (drop (Suc l) ms)"
    by (rule take_add)
  moreover have "take ?k (drop (Suc l) ms) = takeWhile inplace (drop (Suc l) ms)"
    by (rule takeWhile_eq_take [symmetric])
  ultimately show ?thesis
    using assms by (simp add: apply_layers_append)
qed

section \<open>One pass of the inner loop\<close>

lemma py_index_Inr: "py_index n i = Inr l \<Longrightarrow> l < n"
  by (auto simp: py_index_def split: if_splits)

lemma hooks_fresh_next: "hooks_fresh w \<Longrightarrow> next_id w \<notin> set (fwd_hooks (objects w r) l)"
  by (auto simp: hooks_fresh_def)

lemma inner_step_Inr:
  assumes "inner_step lib li ki (opt, img, w) = Inr (opt', img', w')"
  obtains r l out ts fired loss g where
    "model w = Some r"
    "py_index (length (features (objects w r))) li = Inr l"
    "forward (hooked (objects w r) l (next_id w)) (val img) = Inr (out, ts, fired)"
    "read_loss (next_id w) ki ts fired = Inr loss"
    "g = fst (backward lib (hooked_loss (hooked (objects w r) l (next_id w)) (next_id w) ki)
               (val img) (weights (objects w r)))"
    "stdout w' = stdout w @ [PrintLoss li ki loss]"
    "calls w' = calls w @ [ZeroGrad, Forward r (val img), Backward g, OptimizerStep (val img) g (val img')]"
    "next_id w' = Suc (next_id w)"
    "model w' = model w"
    "objects w' = (objects w)(r := (objects w r)\<lparr>grad_acc := grad_acc (objects w r) @
         [snd (backward lib (hooked_loss (hooked (objects w r) l (next_id w)) (next_id w) ki)
                (val img) (weights (objects w r)))],
        fwd_hooks := (fwd_hooks (objects w r))(l := removeAll (next_id w) (fwd_hooks (objects w r) l @ [next_id w]))\<rparr>)"
    "shape (val img') = shape (val img)"
    "(opt', data (val img')) = adam_update lib (1 / 10) (1 / 1000000) opt (val img) g"
  using assms
  unfolding inner_step_def zero_grad_def register_forward_hook_def call_model_def
    loss_backward_def optimizer_step_def remove_hook_def hooked_def
  by (auto simp: Let_def split: option.splits sum.splits prod.splits)

lemma hooked_loss_at:
  assumes "forward net x = Inr (out, ts, fired)" and "read_loss h ki ts fired = Inr loss"
  shows "hooked_loss net h ki x (weights net) = Inr loss"
  using assms by (simp add: hooked_loss_def)

subsection \<open>What the loss is\<close>

lemma hooked_loss_Inr:
  assumes idx: "py_index (length (features net)) li = Inr l"
    and fresh: "\<And>i. h \<notin> set (fwd_hooks net i)"
    and loss: "hooked_loss (hooked net l h) h ki x wt = Inr u"
  shows "\<exists>out ts fired t v act.
      forward ((hooked net l h)\<lparr>weights := wt\<rparr>) x = Inr (out, ts, fired)
    \<and> collected h fired = [t] \<and> t < length ts \<and> ts ! t = v
    \<and> hooked_activation (net\<lparr>weights := wt\<rparr>) l x = Inr v
    \<and> index2 v 0 ki = Inr act \<and> u = - mean_all act"
proof -
  let ?hk = "(fwd_hooks net)(l := fwd_hooks net l @ [h])"
  from loss obtain out ts fired t0 rest act where
    fw: "forward ((hooked net l h)\<lparr>weights := wt\<rparr>) x = Inr (out, ts, fired)"
    and co: "collected h fired = t0 # rest"
    and ix: "index2 (ts ! t0) 0 ki = Inr act" and u: "u = - mean_all act"
    by (auto simp: hooked_loss_def read_loss_def split: sum.splits prod.splits list.splits)
  from fw obtain older cur where
    rf: "run_features 0 (features net) wt ?hk [] x = Inr (older, cur, fired)"
    and ts: "ts = older @ [cur]"
    by (auto simp: forward_def hooked_def split: sum.splits prod.splits)
  have l: "l < length (features net)" using idx by (rule py_index_Inr)
  have one: "count_list (?hk l) h = 1"
    using fresh [of l] by (simp add: count_list_0_iff)
  have other: "\<And>i. i \<noteq> l \<Longrightarrow> h \<notin> set (?hk i)"
    using fresh by simp
  from run_features_once [OF rf _ _ other one] l
  obtain t a where c: "collected h fired = [t]" and t: "t \<le> length older"
    and a: "apply_layers wt (take (Suc l) (features net)) x = Inr a"
    and v: "apply_layers wt (takeWhile inplace (drop (Suc l) (features net))) a = Inr ((older @ [cur]) ! t)"
    by auto
  have "hooked_activation (net\<lparr>weights := wt\<rparr>) l x = Inr (ts ! t)"
    using hooked_activation_split [OF a v]
    by (simp add: hooked_activation_def inplace_run_def ts)
  moreover have "t0 = t" using co c by simp
  moreover have "t < length ts" using t ts by simp
  ultimately show ?thesis
    using fw c ix u by auto
qed


lemma inplace_run_weights [simp]: "inplace_run (net\<lparr>weights := wt\<rparr>) l = inplace_run net l"
  by (simp add: inplace_run_def)

lemma indices_1: "indices [w] = map (\<lambda>j. [j]) [0..<w]"
  by (induction w) simp_all

lemma sum_list_map_concat:
  "sum_list (map g (concat xss)) = sum_list (map (\<lambda>xs. sum_list (map (g :: 'a \<Rightarrow> real) xs)) xss)"
  by (induction xss) simp_all

lemma sum_indices_2: "sum_list (map g (indices [h, w])) = sum01 h w (\<lambda>i j. g [i, j])"
proof -
  have "indices [h, w] = concat (map (\<lambda>i. map (\<lambda>j. [i, j]) [0..<w]) [0..<h])"
    by (simp only: indices.simps(2) [of h "[w]"] indices_1) (simp add: comp_def)
  then show ?thesis
    by (simp add: sum01_def sum_list_map_concat comp_def)
qed

lemma length_indices_2: "length (indices [h, w]) = h * w"
proof -
  have "indices [h, w] = concat (map (\<lambda>i. map (\<lambda>j. [i, j]) [0..<w]) [0..<h])"
    by (simp only: indices.simps(2) [of h "[w]"] indices_1) (simp add: comp_def)
  then show ?thesis
    by (simp add: length_concat comp_def sum_list_triv)
qed

lemma py_index_mod:
  assumes "py_index n k = Inr k'"
  shows "k' = nat (k mod int n)"
proof (cases "k < 0")
  case True
  with assms have r: "- int n \<le> k" and k': "k' = nat (k + int n)"
    by (auto simp: py_index_def split: if_splits)
  have "0 \<le> k + int n" and "k + int n < int n" using True r by simp_all
  then have "(k + int n) mod int n = k + int n" by (rule mod_pos_pos_trivial)
  moreover have "(k + int n) mod int n = k mod int n" by (rule mod_add_self2)
  ultimately have "k mod int n = k + int n" by (simp only:)
  then show ?thesis using k' by simp
next
  case False
  with assms have "k < int n" and "k' = nat k"
    by (auto simp: py_index_def split: if_splits)
  with False show ?thesis by (simp add: mod_pos_pos_trivial)
qed

lemma index2_unit_mean:
  assumes s: "shape v = [b, c, h, w]" and i: "index2 v 0 k = Inr act"
  shows "unit_mean v k = Inr (mean_all act)"
proof -
  from i s obtain k' where b: "0 < b" and k': "py_index c k = Inr k'"
    and act: "act = \<lparr>shape = [h, w], data = (\<lambda>idx. data v (0 # k' # idx))\<rparr>"
    by (auto simp: index2_def py_index_def [of b] split: sum.splits if_splits)
  from k' have r: "- int c \<le> k" "k < int c"
    by (auto simp: py_index_def split: if_splits)
  have m: "mean_all act = sum01 h w (\<lambda>i j. data v [0, k', i, j]) / real (h * w)"
    unfolding mean_all_def act
    by (simp only: ndarray.simps sum_indices_2 length_indices_2)
  show ?thesis
    using b r m py_index_mod [OF k'] by (simp add: unit_mean_def s)
qed


subsection \<open>The pass on a network with an in-place module\<close>

text \<open>
  In a pass that completes (the handles installed before it being below torch's handle
  counter) the hook on \<open>features[layer_index]\<close> of the global \<open>model\<close> is called
  exactly once; the tensor it was called with holds, after the pass, the activation of
  the last in-place module of the run that directly follows \<open>features[layer_index]\<close>;
  the loss printed is minus the mean of channel \<open>kernel_index\<close> of that, and the
  optimizer step is taken with the gradient that \<open>backward\<close> returns for the loss.
\<close>

lemma pass_reads_hooked_tensor:
  assumes step: "inner_step lib layer_index kernel_index (opt, img, w) = Inr (opt', img', w')"
    and fresh: "hooks_fresh w"
  shows "\<exists>r l out ts fired t v act loss g.
      model w = Some r
    \<and> py_index (length (features (objects w r))) layer_index = Inr l
    \<and> forward (hooked (objects w r) l (next_id w)) (val img) = Inr (out, ts, fired)
    \<and> collected (next_id w) fired = [t] \<and> t < length ts \<and> ts ! t = v
    \<and> hooked_activation (objects w r) l (val img) = Inr v
    \<and> index2 v 0 kernel_index = Inr act \<and> loss = - mean_all act
    \<and> (length (shape v) = 4 \<longrightarrow> unit_mean v kernel_index = Inr (- loss))
    \<and> stdout w' = stdout w @ [PrintLoss layer_index kernel_index loss]
    \<and> g = fst (backward lib (hooked_loss (hooked (objects w r) l (next_id w)) (next_id w) kernel_index)
                 (val img) (weights (objects w r)))
    \<and> calls w' = calls w @ [ZeroGrad, Forward r (val img), Backward g, OptimizerStep (val img) g (val img')]
    \<and> (opt', data (val img')) = adam_update lib (1 / 10) (1 / 1000000) opt (val img) g"
proof -
  from step obtain r l out ts fired loss g where
    m: "model w = Some r"
    and idx: "py_index (length (features (objects w r))) layer_index = Inr l"
    and fw: "forward (hooked (objects w r) l (next_id w)) (val img) = Inr (out, ts, fired)"
    and rl: "read_loss (next_id w) kernel_index ts fired = Inr loss"
    and g: "g = fst (backward lib (hooked_loss (hooked (objects w r) l (next_id w)) (next_id w) kernel_index)
               (val img) (weights (objects w r)))"
    and so: "stdout w' = stdout w @ [PrintLoss layer_index kernel_index loss]"
    and ca: "calls w' = calls w @ [ZeroGrad, Forward r (val img), Backward g, OptimizerStep (val img) g (val img')]"
    and up: "(opt', data (val img')) = adam_update lib (1 / 10) (1 / 1000000) opt (val img) g"
    by (rule inner_step_Inr)
  have fr: "\<And>i. next_id w \<notin> set (fwd_hooks (objects w r) i)"
    using fresh by (rule hooks_fresh_next)
  have w: "weights (hooked (objects w r) l (next_id w)) = weights (objects w r)"
    by (simp add: hooked_def)
  have hl: "hooked_loss (hooked (objects w r) l (next_id w)) (next_id w) kernel_index (val img)
      (weights (objects w r)) = Inr loss"
    using hooked_loss_at [OF fw rl] w by simp
  from hooked_loss_Inr [OF idx fr hl] fw
  obtain t v act where
    c: "collected (next_id w) fired = [t]" "t < length ts" "ts ! t = v"
    and v: "hooked_activation (objects w r) l (val img) = Inr v"
    and i: "index2 v 0 kernel_index = Inr act" and l: "loss = - mean_all act"
    by (auto simp: hooked_def)
  have "unit_mean v kernel_index = Inr (- loss)" if "length (shape v) = 4"
  proof -
    from that obtain b c h w where "shape v = [b, c, h, w]"
      by (auto simp: length_Suc_conv numeral_eq_Suc)
    from index2_unit_mean [OF this i] l show ?thesis by simp
  qed
  with m idx fw c v i l so g ca up show ?thesis by blast
qed

lemma small_fresh: "hooks_fresh small_world"
  by (simp add: hooks_fresh_def small_world_def small_net_def empty_net_def)

lemma relu_fresh: "hooks_fresh relu_world"
  by (simp add: hooks_fresh_def relu_world_def relu_net_def empty_net_def)

lemma sum01_2_2: "sum01 2 2 f = f 0 0 + f 0 1 + f 1 0 + f 1 1"
  by (simp add: sum01_def numeral_2_eq_2)

lemmas step_defs =
  inner_step_def zero_grad_def register_forward_hook_def call_model_def loss_backward_def
  optimizer_step_def remove_hook_def read_loss_def hooked_loss_def forward_def collected_def
  index2_def py_index_def unsqueeze0_def Let_def

text \<open>
  Claim C1. The claim is that the loss of a pass is minus the mean of channel
  \<open>kernel_index\<close> of the tensor produced by layer \<open>layer_index\<close>. On a layer that is
  followed by an in-place module it is not: the hook keeps a reference to the tensor, the
  in-place module overwrites it, and the loss is read after the pass. Here module 0 scales
  by \<open>-2\<close> and module 1 is a ReLU in place; the mean activation of unit 1 of module 0 on
  the image is \<open>-3\<close>, so the loss claimed is 3; the loss printed is 0, minus the mean of
  what the ReLU left.
\<close>

theorem inplace_relu_overwrites_hooked_output:
  "\<exists>opt' img' w'.
     inner_step small_lib 0 1 ((), \<lparr>val = unsqueeze0 small_image, grad = None\<rparr>, relu_world)
       = Inr (opt', img', w')
     \<and> stdout w' = [PrintLoss 0 1 0]
     \<and> mean_activation relu_net 0 1 (unsqueeze0 small_image) = Inr (- 3)"
proof -
  have "\<exists>opt' img' w'.
     inner_step small_lib 0 1 ((), \<lparr>val = unsqueeze0 small_image, grad = None\<rparr>, relu_world)
       = Inr (opt', img', w') \<and> stdout w' = [PrintLoss 0 1 0]"
    by (simp add: step_defs relu_world_def relu_net_def scale_layer_def relu_layer_def
        small_image_def mean_all_def numeral_2_eq_2)
  moreover have "mean_activation relu_net 0 1 (unsqueeze0 small_image) = Inr (- 3)"
    by (simp add: mean_activation_def relu_net_def py_index_def layer_activation_def
        scale_layer_def unsqueeze0_def small_image_def unit_mean_def sum01_2_2)
  ultimately show ?thesis by blast
qed

section \<open>The loops\<close>

lemma same_networks_refl: "same_networks w w"
  by (simp add: same_networks_def)

lemma same_networks_trans: "same_networks w w' \<Longrightarrow> same_networks w' w'' \<Longrightarrow> same_networks w w''"
  by (simp add: same_networks_def)



lemma inner_step_frame:
  assumes step: "inner_step lib li ki (opt, img, w) = Inr (opt', img', w')"
    and fresh: "hooks_fresh w"
  shows "hooks_fresh w' \<and> same_networks w w'"
proof -
  from step obtain r l where
    n: "next_id w' = Suc (next_id w)"
    and o: "objects w' = (objects w)(r := (objects w r)\<lparr>grad_acc := grad_acc (objects w r) @
         [snd (backward lib (hooked_loss (hooked (objects w r) l (next_id w)) (next_id w) ki)
                (val img) (weights (objects w r)))],
        fwd_hooks := (fwd_hooks (objects w r))(l := removeAll (next_id w) (fwd_hooks (objects w r) l @ [next_id w]))\<rparr>)"
    by (rule inner_step_Inr)
  have "removeAll (next_id w) (fwd_hooks (objects w r) l @ [next_id w]) = fwd_hooks (objects w r) l"
    using hooks_fresh_next [OF fresh, of r l] by simp
  then have h: "\<And>r'. fwd_hooks (objects w' r') = fwd_hooks (objects w r')"
    by (simp add: o)
  have "same_networks w w'"
    unfolding same_networks_def using h by (simp add: o)
  moreover have "hooks_fresh w'"
    using fresh unfolding hooks_fresh_def h n by (auto simp: less_Suc_eq)
  ultimately show ?thesis by simp
qed


lemma inner_step_shape:
  "inner_step lib li ki (opt, img, w) = Inr (opt', img', w') \<Longrightarrow> shape (val img') = shape (val img)"
  by (erule inner_step_Inr) simp

lemma inner_loop_Suc:
  assumes "inner_loop lib li ki (Suc n) (opt, img, w) = Inr (opt', img', w')"
  obtains o1 i1 w1 where
    "inner_step lib li ki (opt, img, w) = Inr (o1, i1, w1)"
    "inner_loop lib li ki n (o1, i1, w1) = Inr (opt', img', w')"
  using assms by (auto split: sum.splits)

lemma inner_loop_frame:
  "inner_loop lib li ki n (opt, img, w) = Inr (opt', img', w') \<Longrightarrow> hooks_fresh w \<Longrightarrow>
     hooks_fresh w' \<and> same_networks w w' \<and> shape (val img') = shape (val img)"
proof (induction n arbitrary: opt img w)
  case 0
  then show ?case by (simp add: same_networks_refl)
next
  case (Suc n)
  from Suc.prems(1) obtain o1 i1 w1 where
    s: "inner_step lib li ki (opt, img, w) = Inr (o1, i1, w1)"
    and r: "inner_loop lib li ki n (o1, i1, w1) = Inr (opt', img', w')"
    by (rule inner_loop_Suc)
  from inner_step_frame [OF s Suc.prems(2)] have f: "hooks_fresh w1" and n: "same_networks w w1"
    by simp_all
  from Suc.IH [OF r f] n inner_step_shape [OF s] show ?case
    by (auto intro: same_networks_trans)
qed



subsection \<open>The outer loop\<close>

lemma upscale_Inr:
  assumes "upscale lib w uf imsize j x = Inr (y, w1)"
  obtains sz a b c where
    "side lib uf imsize (int j) = Inr sz"
    "transpose_1_2_0 (squeeze x) = Inr a"
    "resize lib a (sz, sz) = Inr b"
    "transpose_2_0_1 b = Inr c"
    "y = unsqueeze0 c"
    "w1 = w\<lparr>calls := calls w @ [Resize sz b]\<rparr>"
  using assms by (auto simp: upscale_def call_resize_def split: sum.splits prod.splits)


lemma outer_loop_Cons:
  assumes "outer_loop lib li ki n imsize uf (j # js) (img, w) = Inr (img', w')"
  obtains x w1 opt1 img1 w2 where
    "upscale lib w uf imsize j (val img) = Inr (x, w1)"
    "inner_loop lib li ki (nat n) (adam_init lib, \<lparr>val = x, grad = None\<rparr>,
        w1\<lparr>stdout := stdout w1 @ [PrintShape (shape x)]\<rparr>) = Inr (opt1, img1, w2)"
    "outer_loop lib li ki n imsize uf js (img1, w2) = Inr (img', w')"
  using assms by (auto split: sum.splits prod.splits)



lemma outer_loop_frame:
  "outer_loop lib li ki n imsize uf js (img, w) = Inr (img', w') \<Longrightarrow> hooks_fresh w \<Longrightarrow>
     hooks_fresh w' \<and> same_networks w w'"
proof (induction js arbitrary: img w)
  case Nil
  then show ?case by (simp add: same_networks_refl)
next
  case (Cons j js)
  from Cons.prems(1) obtain x w1 opt1 img1 w2 where
    u: "upscale lib w uf imsize j (val img) = Inr (x, w1)"
    and i: "inner_loop lib li ki (nat n) (adam_init lib, \<lparr>val = x, grad = None\<rparr>,
        w1\<lparr>stdout := stdout w1 @ [PrintShape (shape x)]\<rparr>) = Inr (opt1, img1, w2)"
    and r: "outer_loop lib li ki n imsize uf js (img1, w2) = Inr (img', w')"
    by (rule outer_loop_Cons)
  let ?w = "w1\<lparr>stdout := stdout w1 @ [PrintShape (shape x)]\<rparr>"
  from u obtain sz0 b0 where w1: "w1 = w\<lparr>calls := calls w @ [Resize sz0 b0]\<rparr>"
    by (rule upscale_Inr)
  have f0: "hooks_fresh ?w" and n0: "same_networks w ?w"
    using Cons.prems(2) by (simp_all add: w1 hooks_fresh_def same_networks_def)
  from inner_loop_frame [OF i f0] have f2: "hooks_fresh w2" and n2: "same_networks ?w w2"
    by simp_all
  from Cons.IH [OF r f2] n0 n2 show ?case
    by (blast intro: same_networks_trans)
qed



section \<open>The method as a whole\<close>




lemma optimize_Inr:
  assumes "optimize lib draws w li ki n imsize us uf = Inr (y, w')"
  obtains a img' where
    "random_image draws imsize = Inr a"
    "outer_loop lib li ki n imsize uf [0..<nat us] (\<lparr>val = unsqueeze0 a, grad = None\<rparr>, w) = Inr (img', w')"
    "to_numpy_image (val img') = Inr y"
  using assms by (auto simp: optimize_def split: sum.splits)

lemma create_feature_maximizer_Inr:
  assumes "create_feature_maximizer lib draws self w li ki n gb imsize us uf = Inr (z, w')"
  obtains y where
    "optimize lib draws w li ki n imsize us uf = Inr (y, w')"
    "renormalize y = Inr z"
  using assms by (auto simp: create_feature_maximizer_def split: sum.splits)




text \<open>
  Claim C4. When \<open>create_feature_maximizer\<close> returns, every network object has the
  parameters, the modules and the installed forward hooks it had before the call: the
  optimizer steps write the image only, and every hook the call installed is removed.
  (The handles installed before the call are below torch's handle counter.)
\<close>

theorem model_left_unchanged:
  assumes run: "create_feature_maximizer lib draws self w layer_index kernel_index n_steps
      gaussian_blur imsize upscaling_steps upscaling_factor = Inr (img, w')"
    and fresh: "hooks_fresh w"
  shows "\<forall>r. weights (objects w' r) = weights (objects w r)
           \<and> fwd_hooks (objects w' r) = fwd_hooks (objects w r)
           \<and> features (objects w' r) = features (objects w r)
           \<and> head (objects w' r) = head (objects w r)"
proof -
  from run obtain y where
    o: "optimize lib draws w layer_index kernel_index n_steps imsize upscaling_steps upscaling_factor
          = Inr (y, w')"
    by (rule create_feature_maximizer_Inr)
  from o obtain a img' where
    l: "outer_loop lib layer_index kernel_index n_steps imsize upscaling_factor [0..<nat upscaling_steps]
          (\<lparr>val = unsqueeze0 a, grad = None\<rparr>, w) = Inr (img', w')"
    by (rule optimize_Inr)
  from outer_loop_frame [OF l fresh] have "same_networks w w'" by simp
  then show ?thesis by (simp add: same_networks_def)
qed

section \<open>The loop structure\<close>

lemma inner_step_bad_index:
  "model w = Some r \<Longrightarrow> py_index (length (features (objects w r))) li = Inl e \<Longrightarrow>
     inner_step lib li ki (opt, img, w) = Inl e"
  by (simp add: inner_step_def zero_grad_def)

lemma outer_loop_bad_index:
  assumes m: "model w = Some r" and i: "py_index (length (features (objects w r))) li = Inl e"
    and n: "1 \<le> n"
  shows "outer_loop lib li ki n imsize uf (j # js) (img, w) =
     (case upscale lib w uf imsize j (val img) of Inl e' \<Rightarrow> Inl e' | Inr p \<Rightarrow> Inl e)"
proof (cases "upscale lib w uf imsize j (val img)")
  case (Inl e')
  then show ?thesis by simp
next
  case (Inr p)
  obtain x w1 where p: "p = (x, w1)" by (cases p)
  from Inr p obtain sz b where w1: "w1 = w\<lparr>calls := calls w @ [Resize sz b]\<rparr>"
    by (auto elim: upscale_Inr)
  from n have "0 < nat n" by simp
  then obtain k where k: "nat n = Suc k"
    using gr0_implies_Suc by blast
  let ?w = "w1\<lparr>stdout := stdout w1 @ [PrintShape (shape x)]\<rparr>"
  have "inner_step lib li ki (adam_init lib, \<lparr>val = x, grad = None\<rparr>, ?w) = Inl e"
    by (rule inner_step_bad_index [where r = r]) (simp_all add: m i w1)
  then show ?thesis
    using Inr p k by simp
qed



section \<open>Runs of the small instance\<close>

text \<open>
  On the one-module network every pass succeeds, whatever the entries of the image, and
  so does every resize to a side other than 1: the calls of the small instance return
  for every number of steps.
\<close>

lemma small_step_runs:
  assumes "model w = Some 0" and "same_networks small_world w"
    and "shape (val img) = [1, 3, s, t]"
  shows "\<exists>opt' img' w'. inner_step small_lib 0 0 (opt, img, w) = Inr (opt', img', w')"
proof -
  from assms(2) have f: "features (objects w 0) = [scale_layer]"
    "head (objects w 0) = (\<lambda>wt x. Inr x)" "fwd_hooks (objects w 0) = (\<lambda>l. [])"
    by (simp_all add: same_networks_def small_world_def small_net_def)
  show ?thesis
    by (simp add: step_defs assms(1,3) f scale_layer_def small_lib_def)
qed

lemma world_update_same [simp]:
  "same_networks v (w\<lparr>calls := c\<rparr>) = same_networks v w"
  "same_networks v (w\<lparr>stdout := p\<rparr>) = same_networks v w"
  "hooks_fresh (w\<lparr>calls := c\<rparr>) = hooks_fresh w"
  "hooks_fresh (w\<lparr>stdout := p\<rparr>) = hooks_fresh w"
  by (simp_all add: same_networks_def hooks_fresh_def)

lemma small_loop_runs:
  "model w = Some 0 \<Longrightarrow> same_networks small_world w \<Longrightarrow> hooks_fresh w
     \<Longrightarrow> shape (val img) = [1, 3, s, t]
     \<Longrightarrow> \<exists>opt' img' w'. inner_loop small_lib 0 0 n (opt, img, w) = Inr (opt', img', w')
           \<and> model w' = Some 0 \<and> same_networks small_world w' \<and> hooks_fresh w'
           \<and> shape (val img') = [1, 3, s, t]"
proof (induction n arbitrary: opt img w)
  case 0
  then show ?case by simp
next
  case (Suc n)
  from small_step_runs [OF Suc.prems(1,2,4)] obtain opt1 img1 w1 where
    st: "inner_step small_lib 0 0 (opt, img, w) = Inr (opt1, img1, w1)"
    by blast
  from inner_step_frame [OF st Suc.prems(3)] have fr: "hooks_fresh w1" "same_networks w w1"
    by simp_all
  from st have m: "model w1 = model w"
    by (rule inner_step_Inr)
  from inner_step_shape [OF st] Suc.prems(4) have sh: "shape (val img1) = [1, 3, s, t]"
    by simp
  from same_networks_trans [OF Suc.prems(2) fr(2)] have sn: "same_networks small_world w1" .
  from Suc.IH [OF _ sn fr(1) sh, of opt1] m Suc.prems(1) st show ?case
    by simp
qed

lemma small_side: "side small_lib 2 2 (int j) = Inr (2 * 2 ^ j)"
proof -
  have "py_int (2 ^ j * 2) = 2 * 2 ^ j"
  proof -
    have "(2::real) ^ j * 2 = real_of_int (2 * 2 ^ j)" by simp
    then show ?thesis unfolding py_int_def by (simp del: of_int_mult of_int_power)
  qed
  then show ?thesis
    by (simp add: side_def small_lib_def)
qed

lemma small_upscale_runs:
  assumes "shape x = [1, 3, s, s]" and "s \<noteq> 1"
  shows "\<exists>y b. upscale small_lib w 2 2 j x = Inr (y, w\<lparr>calls := calls w @ [Resize (2 * 2 ^ j) b]\<rparr>)
           \<and> shape y = [1, 3, 2 * 2 ^ j, 2 * 2 ^ j]"
proof -
  have r: "skimage_resize small_lib = (\<lambda>a r c. Inr (data a))"
    by (simp add: small_lib_def)
  show ?thesis
    using assms
    by (simp add: upscale_def small_side squeeze_def transpose_1_2_0_def call_resize_def resize_def
        r transpose_2_0_1_def unsqueeze0_def nat_mult_distrib nat_power_eq) blast
qed

lemma small_outer_runs:
  "model w = Some 0 \<Longrightarrow> same_networks small_world w \<Longrightarrow> hooks_fresh w
     \<Longrightarrow> shape (val img) = [1, 3, s, s] \<Longrightarrow> s \<noteq> 1
     \<Longrightarrow> \<exists>img' w' s'. outer_loop small_lib 0 0 n 2 2 js (img, w) = Inr (img', w')
           \<and> shape (val img') = [1, 3, s', s'] \<and> s' \<noteq> 1"
proof (induction js arbitrary: img w s)
  case Nil
  then show ?case by simp
next
  case (Cons j js)
  from small_upscale_runs [OF Cons.prems(4,5), of w j] obtain y b where
    u: "upscale small_lib w 2 2 j (val img) = Inr (y, w\<lparr>calls := calls w @ [Resize (2 * 2 ^ j) b]\<rparr>)"
    and sy: "shape y = [1, 3, 2 * 2 ^ j, 2 * 2 ^ j]"
    by blast
  let ?w = "w\<lparr>calls := calls w @ [Resize (2 * 2 ^ j) b]\<rparr>\<lparr>stdout := stdout w @ [PrintShape (shape y)]\<rparr>"
  have "\<exists>opt' img' w'. inner_loop small_lib 0 0 (nat n) ((), \<lparr>val = y, grad = None\<rparr>, ?w)
           = Inr (opt', img', w')
           \<and> model w' = Some 0 \<and> same_networks small_world w' \<and> hooks_fresh w'
           \<and> shape (val img') = [1, 3, 2 * 2 ^ j, 2 * 2 ^ j]"
    by (rule small_loop_runs) (simp_all add: Cons.prems sy)
  then obtain opt1 img1 w1 where
    l: "inner_loop small_lib 0 0 (nat n) ((), \<lparr>val = y, grad = None\<rparr>, ?w) = Inr (opt1, img1, w1)"
    and i: "model w1 = Some 0" "same_networks small_world w1" "hooks_fresh w1"
      "shape (val img1) = [1, 3, 2 * 2 ^ j, 2 * 2 ^ j]"
    by blast
  have "(2::nat) * 2 ^ j \<noteq> 1" by simp
  from Cons.IH [OF i this] obtain img' w' s' where
    "outer_loop small_lib 0 0 n 2 2 js (img1, w1) = Inr (img', w')"
    "shape (val img') = [1, 3, s', s'] \<and> s' \<noteq> 1"
    by blast
  with u l show ?case
    by (simp add: small_lib_def)
qed

lemma small_runs:
  "\<exists>img w'. create_feature_maximizer small_lib small_draws self small_world 0 0 n gb 2 us 2
     = Inr (img, w')"
proof -
  have "\<exists>img' w' s'. outer_loop small_lib 0 0 n 2 2 [0..<nat us]
          (\<lparr>val = unsqueeze0 \<lparr>shape = [3, 2, 2],
              data = (\<lambda>idx. unsigned (np_uint8 (small_draws idx)) / 255)\<rparr>, grad = None\<rparr>, small_world)
          = Inr (img', w') \<and> shape (val img') = [1, 3, s', s'] \<and> s' \<noteq> 1"
    by (rule small_outer_runs [where s = 2])
      (simp_all add: small_fresh same_networks_refl unsqueeze0_def, simp add: small_world_def)
  then obtain img' w' s' where
    "outer_loop small_lib 0 0 n 2 2 [0..<nat us]
          (\<lparr>val = unsqueeze0 \<lparr>shape = [3, 2, 2],
              data = (\<lambda>idx. unsigned (np_uint8 (small_draws idx)) / 255)\<rparr>, grad = None\<rparr>, small_world)
          = Inr (img', w')" "shape (val img') = [1, 3, s', s']" "s' \<noteq> 1"
    by blast
  then show ?thesis
    by (simp add: create_feature_maximizer_def optimize_def random_image_def to_numpy_image_def
        squeeze_def moveaxis_0_2_def renormalize_def mean_axes_0_1_def std_axes_0_1_def
        broadcast_tail_def inplace_vec3_def Let_def)
qed

lemmas small_defs =
  create_feature_maximizer_def optimize_def random_image_def small_world_def small_net_def
  small_lib_def upscale_def call_resize_def side_def py_int_def squeeze_def transpose_1_2_0_def
  transpose_2_0_1_def resize_def scale_layer_def to_numpy_image_def moveaxis_0_2_def
  renormalize_def mean_axes_0_1_def std_axes_0_1_def broadcast_tail_def inplace_vec3_def
  step_defs


lemma small_run:
  "\<exists>img w'. create_feature_maximizer small_lib small_draws (init 0) small_world 0 0 1 0 2 2 2
     = Inr (img, w')"
  by (rule small_runs)






theorem model_left_unchanged_witness:
  "\<exists>img w'.
     create_feature_maximizer small_lib small_draws (init 0) small_world 0 0 1 0 2 2 2 = Inr (img, w')
     \<and> hooks_fresh small_world
     \<and> weights (objects w' 0) = 2
     \<and> fwd_hooks (objects w' 0) = (\<lambda>l. [])"
proof -
  from small_run obtain img w' where
    r: "create_feature_maximizer small_lib small_draws (init 0) small_world 0 0 1 0 2 2 2 = Inr (img, w')"
    by blast
  from model_left_unchanged [OF r small_fresh] have
    "weights (objects w' 0) = weights (objects small_world 0)"
    "fwd_hooks (objects w' 0) = fwd_hooks (objects small_world 0)"
    by simp_all
  then show ?thesis
    using r small_fresh by (simp add: small_world_def small_net_def)
qed

section \<open>The renormalisation\<close>














subsection \<open>A run of the small instance with one optimizer step\<close>







section \<open>What the image returned is\<close>




subsection \<open>The optimizer steps of a run\<close>








subsection \<open>The steps of the run with one optimizer step\<close>





section \<open>Errors\<close>

lemma py_index_out_of_range:
  "i < - int n \<or> int n \<le> i \<Longrightarrow> py_index n i = Inl IndexError"
  by (auto simp: py_index_def)

lemma mean_layer_activations_bad_path:
  "image_open lib image_path = Inl e \<Longrightarrow>
     get_mean_layer_activations lib self w image_path layer_index imsize = Inl e"
  by (simp add: get_mean_layer_activations_def image_loader_def)

lemma mean_layer_activations_bad_index:
  assumes "layer_index < - int (length (features (objects w (self_model self))))
      \<or> int (length (features (objects w (self_model self)))) \<le> layer_index"
  shows "get_mean_layer_activations lib self w image_path layer_index imsize =
     (case image_loader lib imsize image_path of Inl e' \<Rightarrow> Inl e' | Inr x \<Rightarrow> Inl IndexError)"
  using py_index_out_of_range [OF assms]
  by (cases "image_loader lib imsize image_path")
    (simp_all add: get_mean_layer_activations_def Let_def)

lemma feature_maximizer_bad_index:
  assumes m: "model w = Some r"
    and i: "layer_index < - int (length (features (objects w r)))
      \<or> int (length (features (objects w r))) \<le> layer_index"
    and u: "1 \<le> upscaling_steps" and n: "1 \<le> n_steps"
  shows "create_feature_maximizer lib draws self w layer_index kernel_index n_steps gaussian_blur
       imsize upscaling_steps upscaling_factor =
     (case random_image draws imsize of
        Inl e' \<Rightarrow> Inl e'
      | Inr a \<Rightarrow>
          (case upscale lib w upscaling_factor imsize 0 (unsqueeze0 a) of
             Inl e' \<Rightarrow> Inl e'
           | Inr x \<Rightarrow> Inl IndexError))"
proof (cases "random_image draws imsize")
  case (Inl e')
  then show ?thesis by (simp add: create_feature_maximizer_def optimize_def)
next
  case (Inr a)
  from u have js: "[0..<nat upscaling_steps] = 0 # [1..<nat upscaling_steps]"
    by (simp add: upt_conv_Cons)
  have "outer_loop lib layer_index kernel_index n_steps imsize upscaling_factor
         (0 # [1..<nat upscaling_steps]) (\<lparr>val = unsqueeze0 a, grad = None\<rparr>, w) =
     (case upscale lib w upscaling_factor imsize 0 (val \<lparr>val = unsqueeze0 a, grad = None\<rparr>) of
        Inl e' \<Rightarrow> Inl e' | Inr p \<Rightarrow> Inl IndexError)"
    using m py_index_out_of_range [OF i] n by (rule outer_loop_bad_index)
  then show ?thesis
    using Inr js
    by (cases "upscale lib w upscaling_factor imsize 0 (unsqueeze0 a)")
      (simp_all add: create_feature_maximizer_def optimize_def)
qed

lemma outer_loop_no_steps:
  "nat n = 0 \<Longrightarrow> outer_loop lib li ki n imsize uf js s = outer_loop lib li' ki n imsize uf js s"
  by (induction js arbitrary: s) (simp_all split: sum.splits prod.splits)

lemma feature_maximizer_unread_index:
  assumes "upscaling_steps \<le> 0 \<or> n_steps \<le> 0"
  shows "create_feature_maximizer lib draws self w layer_index kernel_index n_steps gaussian_blur
       imsize upscaling_steps upscaling_factor
   = create_feature_maximizer lib draws self w layer_index' kernel_index n_steps gaussian_blur
       imsize upscaling_steps upscaling_factor"
proof -
  have "outer_loop lib layer_index kernel_index n_steps imsize upscaling_factor
          [0..<nat upscaling_steps] s
      = outer_loop lib layer_index' kernel_index n_steps imsize upscaling_factor
          [0..<nat upscaling_steps] s" for s
  proof (cases "upscaling_steps \<le> 0")
    case True
    then show ?thesis by simp
  next
    case False
    with assms have "nat n_steps = 0" by simp
    then show ?thesis by (rule outer_loop_no_steps)
  qed
  then show ?thesis
    unfolding create_feature_maximizer_def optimize_def by (simp only:)
qed

text \<open>
  Claim C6, as amended. Neither method checks its arguments or catches an exception.
  \<open>get_mean_layer_activations\<close> fails with the error of \<open>Image.open\<close> when the file
  cannot be opened; when \<open>layer_index\<close> is outside the index range of the features of the
  visualizer's model, it fails with the error of loading the image if loading fails, and
  with the IndexError of the indexing otherwise. \<open>create_feature_maximizer\<close>, for a
  visualizer built on the notebook's model, with \<open>upscaling_steps \<ge> 1\<close> and
  \<open>n_steps \<ge> 1\<close> and \<open>layer_index\<close> outside the index range of the model's features,
  fails with the error of making or first resizing the start image if that fails, and
  with the IndexError of the indexing otherwise. With \<open>upscaling_steps \<le> 0\<close> or
  \<open>n_steps \<le> 0\<close> the inner loop is not entered and the outcome of the call is the same
  for every \<open>layer_index\<close>.
\<close>

theorem errors_are_propagated:
  "(image_open lib image_path = Inl e \<longrightarrow>
      get_mean_layer_activations lib self w image_path layer_index imsize = Inl e)
   \<and> (layer_index < - int (length (features (objects w (self_model self))))
        \<or> int (length (features (objects w (self_model self)))) \<le> layer_index \<longrightarrow>
      get_mean_layer_activations lib self w image_path layer_index imsize =
        (case image_loader lib imsize image_path of Inl e' \<Rightarrow> Inl e' | Inr x \<Rightarrow> Inl IndexError))
   \<and> (model w = Some (self_model self) \<longrightarrow> 1 \<le> upscaling_steps \<longrightarrow> 1 \<le> n_steps \<longrightarrow>
      layer_index < - int (length (features (objects w (self_model self))))
        \<or> int (length (features (objects w (self_model self)))) \<le> layer_index \<longrightarrow>
      create_feature_maximizer lib draws self w layer_index kernel_index n_steps gaussian_blur
          img_size upscaling_steps upscaling_factor =
        (case random_image draws img_size of
           Inl e' \<Rightarrow> Inl e'
         | Inr a \<Rightarrow>
             (case upscale lib w upscaling_factor img_size 0 (unsqueeze0 a) of
                Inl e' \<Rightarrow> Inl e'
              | Inr x \<Rightarrow> Inl IndexError)))
   \<and> (upscaling_steps \<le> 0 \<or> n_steps \<le> 0 \<longrightarrow>
      create_feature_maximizer lib draws self w layer_index kernel_index n_steps gaussian_blur
          img_size upscaling_steps upscaling_factor
      = create_feature_maximizer lib draws self w layer_index' kernel_index n_steps gaussian_blur
          img_size upscaling_steps upscaling_factor)"
  using mean_layer_activations_bad_path [of lib image_path e self w layer_index imsize]
    mean_layer_activations_bad_index [of layer_index w self lib image_path imsize]
    feature_maximizer_bad_index [of w "self_model self" layer_index upscaling_steps n_steps
      lib draws self kernel_index gaussian_blur img_size upscaling_factor]
    feature_maximizer_unread_index [of upscaling_steps n_steps lib draws self w layer_index
      kernel_index gaussian_blur img_size upscaling_factor layer_index']
  by blast

theorem errors_are_propagated_witness:
  "get_mean_layer_activations small_lib (init 0) small_world ''fox.jpg'' 0 224 = Inl OSError
   \<and> get_mean_layer_activations small_lib (init 0) small_world ''cat.jpg'' 5 224 = Inl IndexError
   \<and> create_feature_maximizer small_lib small_draws (init 0) small_world 5 0 1 0 2 1 1
       = Inl IndexError
   \<and> create_feature_maximizer small_lib small_draws (init 0) small_world 5 0 0 0 2 1 1
       = create_feature_maximizer small_lib small_draws (init 0) small_world 0 0 0 0 2 1 1"
proof -
  have o: "image_open small_lib ''fox.jpg'' = Inl OSError"
    by (simp add: small_lib_def)
  have i: "(5::int) < - int (length (features (objects small_world (self_model (init 0)))))
      \<or> int (length (features (objects small_world (self_model (init 0))))) \<le> 5"
    by (simp add: small_world_def small_net_def init_def)
  have m: "model small_world = Some (self_model (init 0))"
    by (simp add: small_world_def init_def)
  have l: "image_loader small_lib 224 ''cat.jpg'' = Inr (unsqueeze0
      \<lparr>shape = [3, 2, 2], data = (\<lambda>idx. (data small_image idx - imagenet_mean ! hd idx) / imagenet_std ! hd idx)\<rparr>)"
    by (simp add: image_loader_def small_lib_def tv_normalize_def small_image_def)
  have r: "\<exists>a. random_image small_draws 2 = Inr a
      \<and> (\<exists>x. upscale small_lib small_world 1 2 0 (unsqueeze0 a) = Inr x)"
    by (simp add: random_image_def upscale_def side_def small_lib_def py_int_def squeeze_def
        unsqueeze0_def transpose_1_2_0_def call_resize_def resize_def transpose_2_0_1_def)
  have "get_mean_layer_activations small_lib (init 0) small_world ''fox.jpg'' 0 224 = Inl OSError"
    using errors_are_propagated [where lib = small_lib and image_path = "''fox.jpg''"
        and e = OSError and self = "init 0" and w = small_world and layer_index = 0 and imsize = 224] o
    by blast
  moreover have "get_mean_layer_activations small_lib (init 0) small_world ''cat.jpg'' 5 224
      = Inl IndexError"
    using errors_are_propagated [where lib = small_lib and image_path = "''cat.jpg''"
        and self = "init 0" and w = small_world and layer_index = 5 and imsize = 224] i l
    by simp
  moreover have "create_feature_maximizer small_lib small_draws (init 0) small_world 5 0 1 0 2 1 1
       = Inl IndexError"
  proof -
    have "create_feature_maximizer small_lib small_draws (init 0) small_world 5 0 1 0 2 1 1 =
        (case random_image small_draws 2 of
           Inl e' \<Rightarrow> Inl e'
         | Inr a \<Rightarrow>
             (case upscale small_lib small_world 1 2 0 (unsqueeze0 a) of
                Inl e' \<Rightarrow> Inl e'
              | Inr x \<Rightarrow> Inl IndexError))"
      using errors_are_propagated [where lib = small_lib and self = "init 0" and w = small_world
          and layer_index = 5 and upscaling_steps = 1 and n_steps = 1 and draws = small_draws
          and kernel_index = 0 and gaussian_blur = 0 and img_size = 2 and upscaling_factor = 1] i m
      by simp
    with r show ?thesis by auto
  qed
  moreover have "create_feature_maximizer small_lib small_draws (init 0) small_world 5 0 0 0 2 1 1
       = create_feature_maximizer small_lib small_draws (init 0) small_world 0 0 0 0 2 1 1"
    using errors_are_propagated [where lib = small_lib and self = "init 0" and w = small_world
          and layer_index = 5 and layer_index' = 0 and upscaling_steps = 1 and n_steps = 0
          and draws = small_draws and kernel_index = 0 and gaussian_blur = 0 and img_size = 2
          and upscaling_factor = 1]
    by simp
  ultimately show ?thesis by (intro conjI)
qed

text \<open>
  With \<open>n_steps = 0\<close> the inner loop is never entered: \<open>layer_index = 5\<close> is outside the
  index range of the one-module network, and \<open>create_feature_maximizer\<close> returns an image.
\<close>

theorem unread_layer_index_counterexample:
  "py_index (length (features (objects small_world 0))) 5 = Inl IndexError
   \<and> (\<exists>img w'. create_feature_maximizer small_lib small_draws (init 0) small_world 5 0 0 0 2 1 1
         = Inr (img, w'))"
  by (simp add: small_defs)

section \<open>The arguments that are not read\<close>

text \<open>
  Claim C7. Two calls of \<open>create_feature_maximizer\<close> with the same random draws, in the
  same environment, that agree on every argument but \<open>gaussian_blur\<close> give the same
  result: the body never reads \<open>gaussian_blur\<close>, and nothing is blurred.
\<close>

theorem gaussian_blur_not_read:
  "create_feature_maximizer lib draws self w layer_index kernel_index n_steps gaussian_blur
       imsize upscaling_steps upscaling_factor
   = create_feature_maximizer lib draws self w layer_index kernel_index n_steps gaussian_blur'
       imsize upscaling_steps upscaling_factor"
  by (simp add: create_feature_maximizer_def)

text \<open>
  The argument \<open>self\<close> is not read either: the body names the global \<open>model\<close>, never
  \<open>self.model\<close>.
\<close>

lemma self_not_read:
  "create_feature_maximizer lib draws self w layer_index kernel_index n_steps gaussian_blur
       imsize upscaling_steps upscaling_factor
   = create_feature_maximizer lib draws self' w layer_index kernel_index n_steps gaussian_blur
       imsize upscaling_steps upscaling_factor"
  by (simp add: create_feature_maximizer_def)

text \<open>
  Claim C2. The claim is that \<open>create_feature_maximizer\<close> runs the model the visualizer
  was built with, whatever else is in the environment. It does not: with the visualizer
  built on the one-module network (object 0) in all three environments, the call returns
  an image when the global \<open>model\<close> is that network, raises IndexError when the global
  \<open>model\<close> is a network without modules, and raises NameError when there is no global
  \<open>model\<close>.
\<close>

theorem global_model_decides:
  "objects (small_world\<lparr>model := Some 1\<rparr>) (self_model (init 0)) = small_net
   \<and> objects (small_world\<lparr>model := None\<rparr>) (self_model (init 0)) = small_net
   \<and> (\<exists>img w'. create_feature_maximizer small_lib small_draws (init 0) small_world 0 0 1 0 2 1 1
          = Inr (img, w'))
   \<and> create_feature_maximizer small_lib small_draws (init 0) (small_world\<lparr>model := Some 1\<rparr>)
          0 0 1 0 2 1 1 = Inl IndexError
   \<and> create_feature_maximizer small_lib small_draws (init 0) (small_world\<lparr>model := None\<rparr>)
          0 0 1 0 2 1 1 = Inl NameError"
  by (simp add: small_defs init_def empty_net_def)

section \<open>The mean activations of a layer\<close>

lemma forward_hooked:
  assumes l: "l < length (features net)"
    and fresh: "\<And>i. h \<notin> set (fwd_hooks net i)"
    and fw: "forward (hooked net l h) x = Inr (out, ts, fired)"
  shows "\<exists>t. collected h fired = [t] \<and> t < length ts \<and> hooked_activation net l x = Inr (ts ! t)"
proof -
  let ?hk = "(fwd_hooks net)(l := fwd_hooks net l @ [h])"
  from fw obtain older cur where
    rf: "run_features 0 (features net) (weights net) ?hk [] x = Inr (older, cur, fired)"
    and ts: "ts = older @ [cur]"
    by (auto simp: forward_def hooked_def split: sum.splits prod.splits)
  have one: "count_list (?hk l) h = 1"
    using fresh [of l] by (simp add: count_list_0_iff)
  have other: "\<And>i. i \<noteq> l \<Longrightarrow> h \<notin> set (?hk i)"
    using fresh by simp
  from run_features_once [OF rf _ _ other one] l
  obtain t a where c: "collected h fired = [t]" and t: "t \<le> length older"
    and a: "apply_layers (weights net) (take (Suc l) (features net)) x = Inr a"
    and v: "apply_layers (weights net) (takeWhile inplace (drop (Suc l) (features net))) a
              = Inr ((older @ [cur]) ! t)"
    by auto
  have "hooked_activation net l x = Inr (ts ! t)"
    using hooked_activation_split [OF a v]
    by (simp add: hooked_activation_def inplace_run_def ts)
  moreover have "t < length ts" using t ts by simp
  ultimately show ?thesis using c by blast
qed

lemma spatial_means:
  assumes m: "mean_axes_1_2 (squeeze a) = Inr m" and s: "shape a = [1, C, H, W]" and k: "k < C"
  shows "shape m = [C] \<and> unit_mean a (int k) = Inr (data m [k])"
proof -
  from m s have ne: "C \<noteq> 1" "H \<noteq> 1" "W \<noteq> 1"
    by (auto simp: mean_axes_1_2_def squeeze_def split: if_splits)
  have sq: "shape (squeeze a) = [C, H, W]"
    and dq: "\<And>i j. data (squeeze a) [k, i, j] = data a [0, k, i, j]"
    using ne by (auto simp: squeeze_def s)
  from m sq have sm: "shape m = [C]"
    and dm: "data m [k] = sum01 H W (\<lambda>i j. data (squeeze a) [k, i, j]) / real (H * W)"
    by (auto simp: mean_axes_1_2_def)
  have "int k mod int C = int k" using k by simp
  then have "unit_mean a (int k) = Inr (sum01 H W (\<lambda>i j. data a [0, k, i, j]) / real (H * W))"
    using k by (simp add: unit_mean_def s)
  with sm dm dq show ?thesis by simp
qed

lemma get_mean_layer_activations_Inr:
  assumes g: "get_mean_layer_activations lib self w image_path layer_index imsize = Inr (m, w')"
    and fresh: "hooks_fresh w"
  shows "\<exists>img l a.
      image_loader lib imsize image_path = Inr img
    \<and> py_index (length (features (objects w (self_model self)))) layer_index = Inr l
    \<and> hooked_activation (objects w (self_model self)) l img = Inr a
    \<and> mean_axes_1_2 (squeeze a) = Inr m"
proof -
  let ?r = "self_model self"
  let ?net = "objects w ?r"
  from g obtain img l out ts fired t0 rest where
    im: "image_loader lib imsize image_path = Inr img"
    and ix: "py_index (length (features ?net)) layer_index = Inr l"
    and fw: "forward (hooked ?net l (next_id w)) img = Inr (out, ts, fired)"
    and co: "collected (next_id w) fired = t0 # rest"
    and me: "mean_axes_1_2 (squeeze (ts ! t0)) = Inr m"
    by (auto simp: get_mean_layer_activations_def register_forward_hook_def hooked_def Let_def
        split: sum.splits prod.splits list.splits)
  have fr: "\<And>i. next_id w \<notin> set (fwd_hooks ?net i)"
    using fresh by (rule hooks_fresh_next)
  have l: "l < length (features ?net)" using ix by (rule py_index_Inr)
  from forward_hooked [OF l fr fw] obtain t where
    "collected (next_id w) fired = [t]" "hooked_activation ?net l img = Inr (ts ! t)"
    by blast
  with co have "hooked_activation ?net l img = Inr (ts ! t0)" by simp
  with im ix me show ?thesis by blast
qed

text \<open>
  Whenever \<open>get_mean_layer_activations\<close> returns, what it averages is the tensor that
  \<open>features[layer_index]\<close> returned as it stands after the pass: the activation of the
  last in-place module of the run that directly follows \<open>features[layer_index]\<close> (of
  \<open>features[layer_index]\<close> itself when none does). When that is a batch of one with
  \<open>C\<close> channels, the result has \<open>C\<close> entries, and entry \<open>k\<close> is the mean of its
  channel \<open>k\<close>.
\<close>

lemma mean_layer_activations_on_return:
  assumes g: "get_mean_layer_activations lib self w image_path layer_index imsize = Inr (m, w')"
    and fresh: "hooks_fresh w"
  shows "\<exists>img l a.
      image_loader lib imsize image_path = Inr img
    \<and> py_index (length (features (objects w (self_model self)))) layer_index = Inr l
    \<and> hooked_activation (objects w (self_model self)) l img = Inr a
    \<and> (\<forall>C H W. shape a = [1, C, H, W] \<longrightarrow>
          shape m = [C] \<and> (\<forall>k<C. unit_mean a (int k) = Inr (data m [k])))"
proof -
  from get_mean_layer_activations_Inr [OF g fresh] obtain img l a where
    "image_loader lib imsize image_path = Inr img"
    "py_index (length (features (objects w (self_model self)))) layer_index = Inr l"
    "hooked_activation (objects w (self_model self)) l img = Inr a"
    and m: "mean_axes_1_2 (squeeze a) = Inr m"
    by blast
  moreover have "shape m = [C] \<and> (\<forall>k<C. unit_mean a (int k) = Inr (data m [k]))"
    if "shape a = [1, C, H, W]" for C H W
  proof (cases "C = 0")
    case True
    with m that show ?thesis
      by (auto simp: mean_axes_1_2_def squeeze_def split: if_splits)
  next
    case False
    then have "0 < C" by simp
    from spatial_means [OF m that this] spatial_means [OF m that] show ?thesis by blast
  qed
  ultimately show ?thesis by blast
qed

text \<open>
  Claim C9. The claim is that \<open>get_mean_layer_activations\<close> returns one mean per kernel
  of the layer. On feature maps of a single pixel it does not: \<open>squeeze()\<close> drops the two
  spatial axes together with the batch axis, and \<open>np.mean(..., axis=(1,2))\<close> raises
  AxisError. Here the image has one pixel, and the activation of module 0 has shape
  \<open>(1, 3, 1, 1)\<close>: three kernels, each with a feature map of one entry.
\<close>

theorem single_pixel_feature_maps:
  "get_mean_layer_activations small_lib (init 0) small_world ''dot.jpg'' 0 1 = Inl AxisError
   \<and> (\<exists>img a. image_loader small_lib 1 ''dot.jpg'' = Inr img
         \<and> layer_activation small_net 0 img = Inr a \<and> shape a = [1, 3, 1, 1])"
  by (simp add: get_mean_layer_activations_def image_loader_def small_lib_def dot_image_def
      tv_normalize_def unsqueeze0_def init_def small_world_def small_net_def py_index_def
      register_forward_hook_def remove_hook_def forward_def scale_layer_def collected_def
      squeeze_def mean_axes_1_2_def layer_activation_def Let_def)

text \<open>On the image of two by two pixels the call returns three means.\<close>

lemma small_mean_layer_activations:
  "\<exists>m w'. get_mean_layer_activations small_lib (init 0) small_world ''cat.jpg'' 0 2 = Inr (m, w')
     \<and> shape m = [3]"
  by (simp add: get_mean_layer_activations_def image_loader_def small_lib_def small_image_def
      tv_normalize_def unsqueeze0_def init_def small_world_def small_net_def py_index_def
      register_forward_hook_def remove_hook_def forward_def scale_layer_def collected_def
      squeeze_def mean_axes_1_2_def layer_activation_def Let_def)

end
